theory Spec2Isabelle
  imports Complex_Main "HOL-Library.AList"
begin

section \<open>The semantic search cache of the sports chat bot\<close>

text \<open>
  The development embeds \<^verbatim>\<open>src/utils/cache_utils.py\<close>, \<^verbatim>\<open>src/utils/embedding_utils.py\<close>,
  \<^verbatim>\<open>src/config.py\<close> and the function \<^verbatim>\<open>get_search_results_with_cache\<close> of
  \<^verbatim>\<open>src/utils/web_search.py\<close>.

  Conventions of the embedding:
  \<^item> float32 and float64 numbers are real numbers (exact arithmetic);
  \<^item> a Python \<open>str\<close> is the list of its code points;
  \<^item> a Python dict is an association list with distinct keys, in insertion order:
    \<open>d[k] = v\<close> is \<open>AList.update k v d\<close>, \<open>d.pop(k, None)\<close> is \<open>AList.delete k d\<close>,
    \<open>k in d\<close> is \<open>k \<in> fst ` set d\<close>, \<open>len(d)\<close> is \<open>length d\<close>;
  \<^item> the three module globals, the files of the cache directory and a log of the calls
    made to the two remote collaborators form one record that every function takes and
    returns;
  \<^item> every exception the source catches is a branch of the model.
\<close>

subsection \<open>Values\<close>

text \<open>
  A Python \<open>str\<close> is the list of its code points; \<open>py\<close> gives the \<open>str\<close> of a
  literal of the source.
\<close>

type_synonym pystr = "nat list"

definition py :: "char list \<Rightarrow> pystr" where
  "py s = map of_char s"

type_synonym vec = "real list"

datatype jvalue = JStr pystr | JNum real

type_synonym payload = "(pystr \<times> jvalue) list"

datatype py_error = AssertionError | RuntimeError | JSONDecodeError | ValueError

subsection \<open>Configuration (config.py)\<close>

definition EMBEDDING_DIM :: nat where
  "EMBEDDING_DIM = 768"

definition CACHE_DIR :: pystr where
  "CACHE_DIR = (py ''search_cache_v6_text_commentary'')"

definition CACHE_SIMILARITY_THRESHOLD :: real where
  "CACHE_SIMILARITY_THRESHOLD = 96 / 100"

subsection \<open>The vector index\<close>

text \<open>
  Modelled from the spec: the vector index is the faiss library, which is not under src/.
  Section 4.2 of the spec gives its contract: an append-only collection of vectors of a
  fixed dimension, searched by inner product, where \<open>append\<close> returns the count before
  the insertion. The checks on the dimension are those of the Python wrapper of faiss
  (an \<open>assert\<close>, hence an \<open>AssertionError\<close>).
\<close>

record flat_index =
  dim :: nat
  rows :: "vec list"

definition IndexFlatIP :: "nat \<Rightarrow> flat_index" where
  "IndexFlatIP n = \<lparr>dim = n, rows = []\<rparr>"

definition ntotal :: "flat_index \<Rightarrow> int" where
  "ntotal ix = int (length (rows ix))"

definition inner_product :: "vec \<Rightarrow> vec \<Rightarrow> real" where
  "inner_product x y = sum_list (map2 (*) x y)"

definition norm_L2sqr :: "vec \<Rightarrow> real" where
  "norm_L2sqr x = sum_list (map (\<lambda>a. a * a) x)"

definition norm_L2 :: "vec \<Rightarrow> real" where
  "norm_L2 x = sqrt (norm_L2sqr x)"

text \<open>
  Modelled from the spec: \<open>faiss.normalize_L2\<close> (not under src/) scales the vector to
  unit length in place. The library leaves a vector of norm zero as it is.
\<close>

definition normalize_L2 :: "vec \<Rightarrow> vec" where
  "normalize_L2 x =
     (let nr = norm_L2sqr x
      in if 0 < nr then map (\<lambda>a. a * (1 / sqrt nr)) x else x)"

definition index_add :: "flat_index \<Rightarrow> vec \<Rightarrow> py_error + flat_index" where
  "index_add ix x =
     (if length x \<noteq> dim ix then Inl AssertionError
      else Inr (ix\<lparr>rows := rows ix @ [x]\<rparr>))"

text \<open>
  The scan of a top-1 search: \<open>i\<close> is the row id of the next row, the pair is the best
  row so far and its score. A later row replaces the best one only with a strictly
  larger score.
\<close>

fun best_row :: "vec \<Rightarrow> vec list \<Rightarrow> int \<Rightarrow> int \<times> real \<Rightarrow> int \<times> real" where
  "best_row x [] i b = b"
| "best_row x (r # rs) i b =
     best_row x rs (i + 1) (if snd b < inner_product x r then (i, inner_product x r) else b)"

text \<open>
  \<open>index.search(x, 1)\<close>: the row id and the score of the nearest row. On an empty
  index the library answers with the id \<open>-1\<close> and the lowest float32.
\<close>

definition index_search :: "flat_index \<Rightarrow> vec \<Rightarrow> py_error + (int \<times> real)" where
  "index_search ix x =
     (if length x \<noteq> dim ix then Inl AssertionError
      else (case rows ix of
              [] \<Rightarrow> Inr (- 1, - 340282346638528859811704183484516925440)
            | r # rs \<Rightarrow> Inr (best_row x rs 1 (0, inner_product x r))))"

subsection \<open>Files\<close>

text \<open>
  What reading a file gives: the index file through \<open>faiss.read_index\<close>, the mapping
  file through \<open>json.load\<close> and the two \<open>get\<close> calls with their defaults (so a file
  without \<open>next_id\<close> is \<open>MappingData 0 _\<close>), an entry file through \<open>json.load\<close>.
  The \<open>Corrupt\<close> constructors stand for every content on which the read raises.
\<close>

datatype index_blob = IndexCorrupt | IndexData flat_index

datatype mapping_blob = MappingCorrupt | MappingData int "(int \<times> pystr \<times> pystr) list"

datatype entry_blob = EntryCorrupt | EntryData payload

subsection \<open>The state and the collaborators\<close>

record world =
  faiss_index :: "flat_index option"
  index_id_to_data :: "(int \<times> pystr \<times> pystr) list"
  next_faiss_id :: int
  index_file :: "index_blob option"
  mapping_file :: "mapping_blob option"
  entry_files :: "pystr \<rightharpoonup> entry_blob"
  embed_calls :: "pystr list"
  live_searches :: "pystr list"

text \<open>
  What a call depends on and the source does not define: the Gemini client
  (\<open>client_ready\<close>: \<open>get_client()\<close> is not \<open>None\<close>; \<open>embed_content\<close>: the vector of the
  response, \<open>None\<close> when the response has none or the request raises), the scraper
  \<open>_perform_web_search_and_extract\<close> (opaque in the spec), \<open>hashlib.sha1\<close>,
  \<open>time.time()\<close>, the two float formats, and which write of the call fails.
\<close>

datatype save_fault = NoFault | IndexWriteFails | MappingWriteFails

record env =
  client_ready :: bool
  embed_content :: "pystr \<Rightarrow> vec option"
  perform_web_search :: "pystr \<Rightarrow> payload"
  sha1_hexdigest :: "pystr \<Rightarrow> pystr"
  time_now :: real
  format_4f :: "real \<Rightarrow> pystr"
  str_float :: "real \<Rightarrow> pystr"
  entry_write_fails :: bool
  save_fails :: save_fault

subsection \<open>cache_utils.py\<close>

definition normalize_query_for_filename :: "env \<Rightarrow> pystr \<Rightarrow> pystr" where
  "normalize_query_for_filename e query = sha1_hexdigest e query"

text \<open>
  \<open>save_faiss_cache\<close>: both files are written when the index holds a vector and the
  counter is positive. A failing write raises inside the \<open>try\<close>: the index file fails
  before anything is written, the mapping file after the index file is written.
\<close>

definition save_faiss_cache :: "env \<Rightarrow> world \<Rightarrow> world" where
  "save_faiss_cache e w =
     (case faiss_index w of
        None \<Rightarrow> w
      | Some ix \<Rightarrow>
          if 0 < next_faiss_id w \<and> 0 < ntotal ix then
            (case save_fails e of
               IndexWriteFails \<Rightarrow> w
             | MappingWriteFails \<Rightarrow> w\<lparr>index_file := Some (IndexData ix)\<rparr>
             | NoFault \<Rightarrow>
                 w\<lparr>index_file := Some (IndexData ix),
                   mapping_file := Some (MappingData (next_faiss_id w) (index_id_to_data w))\<rparr>)
          else w)"

text \<open>The dict comprehension \<open>{int(k): v for k, v in ...items()}\<close>.\<close>

definition dict_of_items :: "(int \<times> pystr \<times> pystr) list \<Rightarrow> (int \<times> pystr \<times> pystr) list" where
  "dict_of_items kvs = fold (\<lambda>(k, v) d. AList.update k v d) kvs []"

text \<open>
  The \<open>try\<close> block of \<open>load_faiss_cache\<close>, entered when both files exist: the index,
  the mapping and the counter it returns, or the exception it raises.
\<close>

definition read_cache_files ::
  "index_blob \<Rightarrow> mapping_blob \<Rightarrow> py_error + (flat_index \<times> (int \<times> pystr \<times> pystr) list \<times> int)" where
  "read_cache_files ib mb =
     (case ib of
        IndexCorrupt \<Rightarrow> Inl RuntimeError
      | IndexData ix \<Rightarrow>
          (case mb of
             MappingCorrupt \<Rightarrow> Inl JSONDecodeError
           | MappingData next_id items \<Rightarrow>
               (let m = dict_of_items items
                in if ntotal ix \<noteq> int (length m) then Inl ValueError
                   else Inr (ix, m, next_id))))"

definition fresh_cache :: "world \<Rightarrow> flat_index \<times> world" where
  "fresh_cache w =
     (IndexFlatIP EMBEDDING_DIM,
      w\<lparr>faiss_index := Some (IndexFlatIP EMBEDDING_DIM), index_id_to_data := [], next_faiss_id := 0\<rparr>)"

text \<open>
  \<open>load_faiss_cache\<close> returns the index it leaves in the global \<open>faiss_index\<close>; its
  callers read the global right after the call, which is this value.
\<close>

definition load_faiss_cache :: "world \<Rightarrow> flat_index \<times> world" where
  "load_faiss_cache w =
     (case faiss_index w of
        Some ix \<Rightarrow> (ix, w)
      | None \<Rightarrow>
          (case (index_file w, mapping_file w) of
             (Some ib, Some mb) \<Rightarrow>
               (case read_cache_files ib mb of
                  Inr (ix, m, next_id) \<Rightarrow>
                    (ix, w\<lparr>faiss_index := Some ix, index_id_to_data := m, next_faiss_id := next_id\<rparr>)
                | Inl err \<Rightarrow> fresh_cache w)
           | _ \<Rightarrow> fresh_cache w))"

definition hit_status :: "env \<Rightarrow> real \<Rightarrow> pystr" where
  "hit_status e score = (py ''HIT (Similarity: '') @ format_4f e score @ (py '')'')"

text \<open>What the hit branch does with the dict read from the entry file.\<close>

definition clean_cached :: "env \<Rightarrow> real \<Rightarrow> payload \<Rightarrow> payload" where
  "clean_cached e score cached_data =
     AList.update (py ''_cache_status'') (JStr (hit_status e score))
       (AList.delete (py ''_cache_timestamp'') (AList.delete (py ''_cached_original_query'') cached_data))"

text \<open>
  \<open>get_from_cache\<close> returns the pair of the source, the caller's array after the call
  (\<open>faiss.normalize_L2\<close> writes into the array it is given, and \<open>reshape\<close> gives a view
  of the caller's array), and the state. Every miss is \<open>(None, -1.0)\<close>.
\<close>

definition get_from_cache ::
  "env \<Rightarrow> pystr \<Rightarrow> vec \<Rightarrow> world \<Rightarrow> (payload option \<times> real) \<times> vec \<times> world" where
  "get_from_cache e query query_vector w =
     (let (ix, w1) = load_faiss_cache w
      in if ntotal ix = 0 then ((None, - 1), query_vector, w1)
         else
           (let qv = normalize_L2 query_vector
            in case index_search ix qv of
                 Inl err \<Rightarrow> ((None, - 1), qv, w1)
               | Inr (nearest_neighbor_id, similarity_score) \<Rightarrow>
                   if similarity_score \<ge> CACHE_SIMILARITY_THRESHOLD then
                     (case map_of (index_id_to_data w1) nearest_neighbor_id of
                        None \<Rightarrow> ((None, - 1), qv, w1)
                      | Some (cached_query_str, cached_filepath) \<Rightarrow>
                          (case entry_files w1 cached_filepath of
                             None \<Rightarrow> ((None, - 1), qv, w1)
                           | Some EntryCorrupt \<Rightarrow> ((None, - 1), qv, w1)
                           | Some (EntryData cached_data) \<Rightarrow>
                               ((Some (clean_cached e similarity_score cached_data),
                                 similarity_score), qv, w1)))
                   else ((None, - 1), qv, w1)))"

definition cache_filepath :: "env \<Rightarrow> pystr \<Rightarrow> pystr" where
  "cache_filepath e query = CACHE_DIR @ (py ''/'') @ normalize_query_for_filename e query @ (py ''.json'')"

definition result_to_save :: "env \<Rightarrow> pystr \<Rightarrow> payload \<Rightarrow> payload" where
  "result_to_save e query result_data =
     AList.update (py ''_cache_timestamp'') (JNum (time_now e))
       (AList.update (py ''_cached_original_query'') (JStr query) result_data)"

definition add_to_cache :: "env \<Rightarrow> pystr \<Rightarrow> vec option \<Rightarrow> payload \<Rightarrow> world \<Rightarrow> bool \<times> world" where
  "add_to_cache e query query_vector result_data w =
     (let (ix, w1) = load_faiss_cache w
      in if entry_write_fails e then (False, w1)
         else
           (let w2 = w1\<lparr>entry_files :=
                         (entry_files w1)(cache_filepath e query \<mapsto>
                            EntryData (result_to_save e query result_data))\<rparr>
            in case query_vector of
                 None \<Rightarrow> (False, w2)
               | Some qv \<Rightarrow>
                   (case index_add ix qv of
                      Inl err \<Rightarrow> (False, w2)
                    | Inr ix' \<Rightarrow>
                        (let current_id = next_faiss_id w2;
                             w3 = w2\<lparr>faiss_index := Some ix',
                                     index_id_to_data :=
                                       AList.update current_id (query, cache_filepath e query)
                                         (index_id_to_data w2),
                                     next_faiss_id := next_faiss_id w2 + 1\<rparr>
                         in (True, save_faiss_cache e w3)))))"

subsection \<open>embedding_utils.py\<close>

text \<open>
  The code points \<open>str.strip()\<close> removes: the characters 9 to 13 and 28 to 32, the
  next line character U+0085, the no-break space U+00A0, the Ogham space mark U+1680,
  the spaces U+2000 to U+200A, the separators U+2028 and U+2029, the narrow no-break
  space U+202F, the mathematical space U+205F and the ideographic space U+3000.
\<close>

definition is_space :: "nat \<Rightarrow> bool" where
  "is_space c =
     ((9 \<le> c \<and> c \<le> 13) \<or> (28 \<le> c \<and> c \<le> 32) \<or> c = 133 \<or> c = 160 \<or> c = 5760 \<or>
      (8192 \<le> c \<and> c \<le> 8202) \<or> c = 8232 \<or> c = 8233 \<or> c = 8239 \<or> c = 8287 \<or>
      c = 12288)"

definition strip :: "pystr \<Rightarrow> pystr" where
  "strip s = rev (dropWhile is_space (rev (dropWhile is_space s)))"

definition get_embedding :: "env \<Rightarrow> pystr \<Rightarrow> world \<Rightarrow> vec option \<times> world" where
  "get_embedding e text w =
     (if \<not> client_ready e then (None, w)
      else if text = [] then (None, w)
      else
        (let t = strip text
         in if t = [] then (None, w)
            else (embed_content e t, w\<lparr>embed_calls := embed_calls w @ [t]\<rparr>)))"

subsection \<open>web_search.py\<close>

definition perform_web_search_and_extract :: "env \<Rightarrow> pystr \<Rightarrow> world \<Rightarrow> payload \<times> world" where
  "perform_web_search_and_extract e query w =
     (perform_web_search e query, w\<lparr>live_searches := live_searches w @ [query]\<rparr>)"

text \<open>The argument of the tool call: a string, or any other Python value.\<close>

datatype query_arg = QStr pystr | QOther

definition py_str :: "env \<Rightarrow> jvalue \<Rightarrow> pystr" where
  "py_str e v = (case v of JStr s \<Rightarrow> s | JNum r \<Rightarrow> str_float e r)"

definition failed_status :: "env \<Rightarrow> payload \<Rightarrow> pystr" where
  "failed_status e live_data =
     (py ''Live Search Failed ('') @
       (case map_of live_data (py ''error'') of None \<Rightarrow> (py ''Unknown error'') | Some v \<Rightarrow> py_str e v) @ (py '')'')"

definition invalid_query_payload :: payload where
  "invalid_query_payload =
     [(py ''error'', JStr (py ''Invalid or empty query received.'')), (py ''_cache_status'', JStr (py ''Error''))]"

definition empty_query_payload :: payload where
  "empty_query_payload =
     [(py ''error'', JStr (py ''Empty query received.'')), (py ''_cache_status'', JStr (py ''Error''))]"

definition empty_results_payload :: payload where
  "empty_results_payload =
     [(py ''error'', JStr (py ''Live search returned empty results.'')),
      (py ''_cache_status'', JStr (py ''Live Search Failed (Empty)''))]"

text \<open>The part of \<open>get_search_results_with_cache\<close> after the live search of a miss.\<close>

definition handle_live_result :: "env \<Rightarrow> pystr \<Rightarrow> vec \<Rightarrow> payload \<Rightarrow> world \<Rightarrow> payload \<times> world" where
  "handle_live_result e query query_vector live_data w =
     (if (py ''error'') \<notin> fst ` set live_data \<and> live_data \<noteq> [] then
        (let (added, w') = add_to_cache e query (Some query_vector) live_data w
         in (AList.update (py ''_cache_status'') (JStr (py ''Live Search (Cache Miss)'')) live_data, w'))
      else if (py ''error'') \<in> fst ` set live_data then
        (AList.update (py ''_cache_status'') (JStr (failed_status e live_data)) live_data, w)
      else (empty_results_payload, w))"

definition get_search_results_with_cache :: "env \<Rightarrow> query_arg \<Rightarrow> world \<Rightarrow> payload \<times> world" where
  "get_search_results_with_cache e arg w =
     (case arg of
        QOther \<Rightarrow> (invalid_query_payload, w)
      | QStr raw \<Rightarrow>
          if raw = [] then (invalid_query_payload, w)
          else
            (let query = strip raw
             in if query = [] then (empty_query_payload, w)
                else
                  (let (query_vector, w1) = get_embedding e query w
                   in case query_vector of
                        None \<Rightarrow>
                          (let (live_data, w2) = perform_web_search_and_extract e query w1
                           in (AList.update (py ''_cache_status'')
                                 (JStr (py ''Live Search (Embedding Failed)'')) live_data, w2))
                      | Some v \<Rightarrow>
                          (let ((cached_data, similarity_score), v', w2) = get_from_cache e query v w1
                           in case cached_data of
                                Some data \<Rightarrow> (data, w2)
                              | None \<Rightarrow>
                                  (let (live_data, w3) = perform_web_search_and_extract e query w2
                                   in handle_live_result e query v' live_data w3)))))"


subsection \<open>Sample inputs\<close>

text \<open>
  Concrete collaborators and states, used to run the definitions: two orthogonal unit
  vectors of the configured dimension, a vector of length two, a scraper that succeeds
  and one that fails, and a cache that was never loaded and has no file on disk.
\<close>

definition e1 :: vec where
  "e1 = 1 # replicate 767 0"

definition e2 :: vec where
  "e2 = 0 # 1 # replicate 766 0"

definition long_vec :: vec where
  "long_vec = 0 # 2 # replicate 766 0"

definition scraped :: payload where
  "scraped =
     [(py ''_cache_status'', JStr (py ''Live Search Triggered'')),
      (py ''Bing Search Results Page'', JStr (py ''India won by 6 wickets''))]"

definition scrape_failed :: payload where
  "scrape_failed =
     [(py ''_cache_status'', JStr (py ''Live Search Triggered'')),
      (py ''error'', JStr (py ''WebDriver initialization failed''))]"

definition probe_env :: env where
  "probe_env =
     \<lparr>client_ready = True,
      embed_content = (\<lambda>t. if t = (py ''ipl final score'') then Some e1
                            else if t = (py ''epl table'') then Some e2
                            else if t = (py ''nba standings'') then Some long_vec
                            else None),
      perform_web_search = (\<lambda>q. scraped),
      sha1_hexdigest = (\<lambda>q. (py ''sha1-'') @ q),
      time_now = 1700000000,
      format_4f = (\<lambda>r. if r = 1 then (py ''1.0000'') else if r = 96 / 100 then (py ''0.9600'') else (py ''0.0000'')),
      str_float = (\<lambda>r. (py ''1700000000.0'')),
      entry_write_fails = False,
      save_fails = NoFault\<rparr>"

definition failing_env :: env where
  "failing_env = probe_env\<lparr>perform_web_search := (\<lambda>q. scrape_failed)\<rparr>"

definition cold_world :: world where
  "cold_world =
     \<lparr>faiss_index = None, index_id_to_data = [], next_faiss_id = 0,
      index_file = None, mapping_file = None, entry_files = Map.empty,
      embed_calls = [], live_searches = []\<rparr>"

text \<open>
  A unit vector at inner product 0.96 with \<open>e1\<close>, a cache that holds it with its entry
  file, a disk whose index file and mapping file disagree in size, a cache whose entry
  file was deleted, and a disk whose mapping file has no \<open>next_id\<close>.
\<close>

definition boundary_vec :: vec where
  "boundary_vec = 96 / 100 # 28 / 100 # replicate 766 0"

definition stored_entry :: payload where
  "stored_entry =
     [(py ''_cache_status'', JStr (py ''Live Search Triggered'')),
      (py ''Bing Search Results Page'', JStr (py ''India won by 6 wickets'')),
      (py ''_cached_original_query'', JStr (py ''ipl final'')),
      (py ''_cache_timestamp'', JNum 1700000000)]"

definition warm_world :: world where
  "warm_world =
     \<lparr>faiss_index = Some \<lparr>dim = 768, rows = [boundary_vec]\<rparr>,
      index_id_to_data = [(0, py ''ipl final'', cache_filepath probe_env (py ''ipl final''))],
      next_faiss_id = 1,
      index_file = Some (IndexData \<lparr>dim = 768, rows = [boundary_vec]\<rparr>),
      mapping_file =
        Some (MappingData 1 [(0, py ''ipl final'', cache_filepath probe_env (py ''ipl final''))]),
      entry_files = [cache_filepath probe_env (py ''ipl final'') \<mapsto> EntryData stored_entry],
      embed_calls = [], live_searches = []\<rparr>"

definition torn_world :: world where
  "torn_world =
     cold_world\<lparr>index_file := Some (IndexData \<lparr>dim = 768, rows = [e1]\<rparr>),
       mapping_file := Some (MappingData 0 [])\<rparr>"

definition stale_world :: world where
  "stale_world =
     \<lparr>faiss_index = Some \<lparr>dim = 768, rows = [e1]\<rparr>,
      index_id_to_data = [(0, py ''ipl final'', cache_filepath probe_env (py ''ipl final''))],
      next_faiss_id = 1,
      index_file = Some (IndexData \<lparr>dim = 768, rows = [e1]\<rparr>),
      mapping_file =
        Some (MappingData 1 [(0, py ''ipl final'', cache_filepath probe_env (py ''ipl final''))]),
      entry_files = Map.empty,
      embed_calls = [], live_searches = []\<rparr>"

definition unsynced_world :: world where
  "unsynced_world =
     cold_world\<lparr>index_file := Some (IndexData \<lparr>dim = 768, rows = [e1]\<rparr>),
       mapping_file :=
         Some (MappingData 0 [(0, py ''ipl final'', cache_filepath probe_env (py ''ipl final''))])\<rparr>"

text \<open>
  A disk whose mapping file has one record under the key 1 and the counter 1, beside an
  index file of one row: the sizes agree and the counter is the vector count, but the
  key is not below the counter.
\<close>

definition ahead_world :: world where
  "ahead_world =
     cold_world\<lparr>index_file := Some (IndexData \<lparr>dim = 768, rows = [e1]\<rparr>),
       mapping_file :=
         Some (MappingData 1 [(1, py ''ipl final'', cache_filepath probe_env (py ''ipl final''))])\<rparr>"

subsection \<open>The invariant of index and mapping\<close>

text \<open>
  The cache, as a load gives it, is in step: the counter is the number of vectors, the
  mapping has as many records, and every key of the mapping is below the counter.
\<close>

definition counter_in_step :: "world \<Rightarrow> bool" where
  "counter_in_step w =
     (let (ix, w1) = load_faiss_cache w
      in next_faiss_id w1 = ntotal ix \<and>
         int (length (index_id_to_data w1)) = ntotal ix \<and>
         (\<forall>k \<in> fst ` set (index_id_to_data w1). k < next_faiss_id w1))"

section \<open>Properties\<close>

subsection \<open>Literals\<close>

lemma py_eq_iff [simp]: "py a = py b \<longleftrightarrow> a = b"
  by (simp add: py_def inj_map_eq_map inj_on_def)

lemma py_eq_Nil [simp]: "py a = [] \<longleftrightarrow> a = []"
  by (simp add: py_def)

lemma py_append: "py (a @ b) = py a @ py b"
  by (simp add: py_def)

subsection \<open>Vectors\<close>

lemma norm_L2sqr_scale: "norm_L2sqr (map (\<lambda>a. a * c) x) = c * c * norm_L2sqr x"
  by (induction x) (simp_all add: norm_L2sqr_def algebra_simps)

lemma norm_L2sqr_nonneg: "0 \<le> norm_L2sqr x"
  by (induction x) (simp_all add: norm_L2sqr_def)

lemma normalize_L2_unit:
  assumes "0 < norm_L2sqr x"
  shows "norm_L2sqr (normalize_L2 x) = 1"
proof -
  let ?n = "norm_L2sqr x"
  have "normalize_L2 x = map (\<lambda>a. a * (1 / sqrt ?n)) x"
    using assms by (simp add: normalize_L2_def Let_def)
  then have "norm_L2sqr (normalize_L2 x) = (1 / sqrt ?n) * (1 / sqrt ?n) * ?n"
    by (simp only: norm_L2sqr_scale)
  also have "\<dots> = 1"
    using assms by (simp add: field_simps)
  finally show ?thesis .
qed

lemma normalize_L2_length: "length (normalize_L2 x) = length x"
  by (simp add: normalize_L2_def Let_def)

lemma normalize_L2_of_unit: "norm_L2sqr x = 1 \<Longrightarrow> normalize_L2 x = x"
  by (simp add: normalize_L2_def Let_def)

lemma inner_product_self: "inner_product x x = norm_L2sqr x"
  by (induction x) (simp_all add: inner_product_def norm_L2sqr_def)

subsection \<open>Trimming\<close>

lemma strip_Nil: "strip [] = []"
  by (simp add: strip_def)

lemma dropWhile_twice: "dropWhile P (dropWhile P xs) = dropWhile P xs"
  by (induction xs) simp_all

lemma dropWhile_rev_dropWhile_head:
  "dropWhile P (rev (dropWhile P (rev (dropWhile P xs)))) = rev (dropWhile P (rev (dropWhile P xs)))"
proof (cases "dropWhile P xs")
  case Nil
  then show ?thesis by (simp only: rev.simps dropWhile.simps)
next
  case (Cons a as)
  then have na: "\<not> P a"
    by (metis dropWhile_eq_Cons_conv)
  have "rev (dropWhile P (rev (a # as))) = a # rev (dropWhile P (rev as))"
    using na by (simp add: dropWhile_append)
  then show ?thesis using Cons na by simp
qed

lemma strip_strip: "strip (strip s) = strip s"
  unfolding strip_def
  by (simp add: dropWhile_rev_dropWhile_head dropWhile_twice)

lemma get_embedding_stripped:
  "strip raw \<noteq> [] \<Longrightarrow>
   get_embedding e (strip raw) w =
     (if client_ready e
      then (embed_content e (strip raw), w\<lparr>embed_calls := embed_calls w @ [strip raw]\<rparr>)
      else (None, w))"
  by (simp add: get_embedding_def Let_def strip_strip)

subsection \<open>Invalid queries\<close>

lemma resolve_non_string: "get_search_results_with_cache e QOther w = (invalid_query_payload, w)"
  by (simp add: get_search_results_with_cache_def)

lemma resolve_blank:
  "strip raw = [] \<Longrightarrow>
   get_search_results_with_cache e (QStr raw) w =
     (if raw = [] then invalid_query_payload else empty_query_payload, w)"
  by (simp add: get_search_results_with_cache_def Let_def)

lemma error_payloads_have_error:
  "(py ''error'') \<in> fst ` set invalid_query_payload" "(py ''error'') \<in> fst ` set empty_query_payload"
  by (simp_all add: invalid_query_payload_def empty_query_payload_def)

text \<open>
  Claim C8. A query that is not a string, or that is empty after \<open>str.strip()\<close> (all
  of its code points are blanks, in ASCII or beyond), is answered at
  once with an error payload (it has the key \<open>error\<close>), and the state returned is the
  state given: no embedding request and no live search is logged, and the index, the
  mapping, the counter and every file are as before.
\<close>

theorem invalid_query_no_effects:
  assumes "arg = QOther \<or> (\<exists>raw. arg = QStr raw \<and> strip raw = [])"
  shows "snd (get_search_results_with_cache e arg w) = w \<and>
    (fst (get_search_results_with_cache e arg w) = invalid_query_payload \<or>
     fst (get_search_results_with_cache e arg w) = empty_query_payload) \<and>
    (py ''error'') \<in> fst ` set (fst (get_search_results_with_cache e arg w))"
proof -
  from assms consider "arg = QOther" | raw where "arg = QStr raw" "strip raw = []"
    by blast
  then show ?thesis
  proof cases
    case 1
    then show ?thesis
      by (simp add: resolve_non_string error_payloads_have_error)
  next
    case 2
    then show ?thesis
      by (cases "raw = []") (simp_all add: resolve_blank error_payloads_have_error)
  qed
qed

theorem invalid_query_no_effects_witness:
  "strip [160, 32, 133, 8195, 12288] = [] \<and>
   get_search_results_with_cache probe_env (QStr [160, 32, 133, 8195, 12288]) cold_world =
     (empty_query_payload, cold_world)"
  using invalid_query_no_effects [of "QStr [160, 32, 133, 8195, 12288]" probe_env cold_world]
  by (simp add: strip_def is_space_def get_search_results_with_cache_def)

subsection \<open>Loading, and what a call leaves alone\<close>

lemma load_keeps_files:
  "index_file (snd (load_faiss_cache w)) = index_file w"
  "mapping_file (snd (load_faiss_cache w)) = mapping_file w"
  "entry_files (snd (load_faiss_cache w)) = entry_files w"
  "embed_calls (snd (load_faiss_cache w)) = embed_calls w"
  "live_searches (snd (load_faiss_cache w)) = live_searches w"
  by (simp_all add: load_faiss_cache_def fresh_cache_def split: option.splits sum.splits prod.splits)

lemma load_sets_index: "faiss_index (snd (load_faiss_cache w)) = Some (fst (load_faiss_cache w))"
  by (simp add: load_faiss_cache_def fresh_cache_def split: option.splits sum.splits prod.splits)

lemma load_loaded: "faiss_index w = Some ix \<Longrightarrow> load_faiss_cache w = (ix, w)"
  by (simp add: load_faiss_cache_def)

lemma load_idem: "load_faiss_cache (snd (load_faiss_cache w)) = load_faiss_cache w"
  using load_loaded [OF load_sets_index, of w] by simp

lemma get_from_cache_world: "snd (snd (get_from_cache e q v w)) = snd (load_faiss_cache w)"
  by (simp add: get_from_cache_def Let_def split: prod.splits sum.splits option.splits entry_blob.splits)

lemma get_embedding_world:
  "faiss_index (snd (get_embedding e t w)) = faiss_index w"
  "index_id_to_data (snd (get_embedding e t w)) = index_id_to_data w"
  "next_faiss_id (snd (get_embedding e t w)) = next_faiss_id w"
  "index_file (snd (get_embedding e t w)) = index_file w"
  "mapping_file (snd (get_embedding e t w)) = mapping_file w"
  "entry_files (snd (get_embedding e t w)) = entry_files w"
  "live_searches (snd (get_embedding e t w)) = live_searches w"
  by (simp_all add: get_embedding_def Let_def)

lemma resolve_embedding_failed:
  assumes "strip raw \<noteq> []" and "fst (get_embedding e (strip raw) w) = None"
  shows "get_search_results_with_cache e (QStr raw) w =
    (AList.update (py ''_cache_status'') (JStr (py ''Live Search (Embedding Failed)''))
       (perform_web_search e (strip raw)),
     (snd (get_embedding e (strip raw) w))
       \<lparr>live_searches := live_searches (snd (get_embedding e (strip raw) w)) @ [strip raw]\<rparr>)"
proof -
  have "raw \<noteq> []" using assms(1) by (auto simp: strip_Nil)
  then show ?thesis
    using assms
    by (simp add: get_search_results_with_cache_def Let_def perform_web_search_and_extract_def
        case_prod_beta)
qed

text \<open>
  Claim C9. When \<open>get_embedding\<close> returns no vector, the call skips the cache lookup,
  performs the live search of the trimmed query (exactly one more entry in the log of
  live searches), returns its result under the status \<open>Live Search (Embedding Failed)\<close>,
  and leaves the index, the mapping, the counter and all files as they were.
\<close>

theorem embedding_failure_goes_live:
  assumes "strip raw \<noteq> []" and "fst (get_embedding e (strip raw) w) = None"
  shows "fst (get_search_results_with_cache e (QStr raw) w) =
      AList.update (py ''_cache_status'') (JStr (py ''Live Search (Embedding Failed)''))
        (perform_web_search e (strip raw)) \<and>
    live_searches (snd (get_search_results_with_cache e (QStr raw) w)) =
      live_searches w @ [strip raw] \<and>
    faiss_index (snd (get_search_results_with_cache e (QStr raw) w)) = faiss_index w \<and>
    index_id_to_data (snd (get_search_results_with_cache e (QStr raw) w)) = index_id_to_data w \<and>
    next_faiss_id (snd (get_search_results_with_cache e (QStr raw) w)) = next_faiss_id w \<and>
    index_file (snd (get_search_results_with_cache e (QStr raw) w)) = index_file w \<and>
    mapping_file (snd (get_search_results_with_cache e (QStr raw) w)) = mapping_file w \<and>
    entry_files (snd (get_search_results_with_cache e (QStr raw) w)) = entry_files w"
  by (simp add: resolve_embedding_failed [OF assms] get_embedding_world)

theorem embedding_failure_goes_live_witness:
  "strip (py '' rugby '') = (py ''rugby'') \<and>
   get_search_results_with_cache probe_env (QStr (py '' rugby '')) cold_world =
     ([(py ''_cache_status'', JStr (py ''Live Search (Embedding Failed)'')),
       (py ''Bing Search Results Page'', JStr (py ''India won by 6 wickets''))],
      cold_world\<lparr>embed_calls := [py ''rugby''], live_searches := [py ''rugby'']\<rparr>)"
  using embedding_failure_goes_live [of " (py '' rugby '')" probe_env cold_world]
  by (simp add: strip_def is_space_def py_def get_search_results_with_cache_def get_embedding_def
      probe_env_def scraped_def cold_world_def perform_web_search_and_extract_def Let_def)


lemma resolve_embedded:
  assumes "strip raw \<noteq> []" and "get_embedding e (strip raw) w = (Some v, w1)"
  shows "get_search_results_with_cache e (QStr raw) w =
    (case fst (fst (get_from_cache e (strip raw) v w1)) of
       Some data \<Rightarrow> (data, snd (load_faiss_cache w1))
     | None \<Rightarrow>
         handle_live_result e (strip raw) (fst (snd (get_from_cache e (strip raw) v w1)))
           (perform_web_search e (strip raw))
           ((snd (load_faiss_cache w1))
              \<lparr>live_searches := live_searches w1 @ [strip raw]\<rparr>))"
proof -
  have "raw \<noteq> []" using assms(1) by (auto simp: strip_Nil)
  then show ?thesis
    using assms
    by (simp add: get_search_results_with_cache_def Let_def perform_web_search_and_extract_def
        case_prod_beta get_from_cache_world load_keeps_files split: option.splits)
qed

lemma handle_live_result_error:
  "(py ''error'') \<in> fst ` set live_data \<Longrightarrow>
   handle_live_result e q v live_data w =
     (AList.update (py ''_cache_status'') (JStr (failed_status e live_data)) live_data, w)"
  by (simp add: handle_live_result_def)

lemma update_keeps_key: "k \<in> fst ` set al \<Longrightarrow> k \<in> fst ` set (AList.update k' v al)"
  by (simp add: AList.dom_update)

lemma load_view_cong:
  assumes "faiss_index w2 = faiss_index w" "index_id_to_data w2 = index_id_to_data w"
    "next_faiss_id w2 = next_faiss_id w" "index_file w2 = index_file w"
    "mapping_file w2 = mapping_file w"
  shows "fst (load_faiss_cache w2) = fst (load_faiss_cache w)"
    and "index_id_to_data (snd (load_faiss_cache w2)) = index_id_to_data (snd (load_faiss_cache w))"
    and "next_faiss_id (snd (load_faiss_cache w2)) = next_faiss_id (snd (load_faiss_cache w))"
  using assms
  by (simp_all add: load_faiss_cache_def fresh_cache_def
      split: option.splits sum.splits prod.splits)

lemma load_view_after_load:
  assumes "w2 = (snd (load_faiss_cache w))\<lparr>live_searches := l\<rparr>"
  shows "fst (load_faiss_cache w2) = fst (load_faiss_cache w)"
    and "index_id_to_data (snd (load_faiss_cache w2)) = index_id_to_data (snd (load_faiss_cache w))"
    and "next_faiss_id (snd (load_faiss_cache w2)) = next_faiss_id (snd (load_faiss_cache w))"
proof -
  have "faiss_index w2 = Some (fst (load_faiss_cache w))"
    using assms by (simp add: load_sets_index)
  then have "load_faiss_cache w2 = (fst (load_faiss_cache w), w2)"
    by (rule load_loaded)
  then show "fst (load_faiss_cache w2) = fst (load_faiss_cache w)"
    and "index_id_to_data (snd (load_faiss_cache w2)) = index_id_to_data (snd (load_faiss_cache w))"
    and "next_faiss_id (snd (load_faiss_cache w2)) = next_faiss_id (snd (load_faiss_cache w))"
    using assms by simp_all
qed

text \<open>
  Claim C5. When the live search of the trimmed query answers with the key \<open>error\<close>,
  the call writes no file (entry files, index file and mapping file are as before) and
  the cache it leaves is the cache a load of the state before gives: same index (hence
  same vector count), same mapping, same counter. If a live search was performed, the
  payload returned is its failure payload, with the key \<open>error\<close>, under the status
  \<open>Live Search Failed (...)\<close> (or \<open>Live Search (Embedding Failed)\<close> when there was no
  vector); on a cache hit no live search is performed at all.
\<close>

theorem failed_live_search_not_cached:
  assumes "strip raw \<noteq> []"
    and "(py ''error'') \<in> fst ` set (perform_web_search e (strip raw))"
    and "get_search_results_with_cache e (QStr raw) w = (p, w')"
  shows "entry_files w' = entry_files w \<and> index_file w' = index_file w \<and>
    mapping_file w' = mapping_file w \<and>
    fst (load_faiss_cache w') = fst (load_faiss_cache w) \<and>
    index_id_to_data (snd (load_faiss_cache w')) = index_id_to_data (snd (load_faiss_cache w)) \<and>
    next_faiss_id (snd (load_faiss_cache w')) = next_faiss_id (snd (load_faiss_cache w)) \<and>
    (case fst (get_embedding e (strip raw) w) of
       None \<Rightarrow>
         p = AList.update (py ''_cache_status'') (JStr (py ''Live Search (Embedding Failed)''))
               (perform_web_search e (strip raw)) \<and>
         (py ''error'') \<in> fst ` set p \<and> live_searches w' = live_searches w @ [strip raw]
     | Some v \<Rightarrow>
         (case fst (fst (get_from_cache e (strip raw) v (snd (get_embedding e (strip raw) w)))) of
            Some data \<Rightarrow> p = data \<and> live_searches w' = live_searches w
          | None \<Rightarrow>
              p = AList.update (py ''_cache_status'')
                    (JStr (failed_status e (perform_web_search e (strip raw))))
                    (perform_web_search e (strip raw)) \<and>
              (py ''error'') \<in> fst ` set p \<and> live_searches w' = live_searches w @ [strip raw]))"
proof (cases "fst (get_embedding e (strip raw) w)")
  case None
  have "(p, w') =
    (AList.update (py ''_cache_status'') (JStr (py ''Live Search (Embedding Failed)''))
       (perform_web_search e (strip raw)),
     (snd (get_embedding e (strip raw) w))
       \<lparr>live_searches := live_searches (snd (get_embedding e (strip raw) w)) @ [strip raw]\<rparr>)"
    using resolve_embedding_failed [OF assms(1) None] assms(3) by simp
  then have p: "p = AList.update (py ''_cache_status'') (JStr (py ''Live Search (Embedding Failed)''))
       (perform_web_search e (strip raw))"
    and w': "w' = (snd (get_embedding e (strip raw) w))
       \<lparr>live_searches := live_searches (snd (get_embedding e (strip raw) w)) @ [strip raw]\<rparr>"
    by simp_all
  have fields: "faiss_index w' = faiss_index w" "index_id_to_data w' = index_id_to_data w"
    "next_faiss_id w' = next_faiss_id w" "index_file w' = index_file w"
    "mapping_file w' = mapping_file w" "entry_files w' = entry_files w"
    "live_searches w' = live_searches w @ [strip raw]"
    by (simp_all add: w' get_embedding_world)
  show ?thesis
    using None assms(2)
    by (simp add: load_view_cong [OF fields(1-5)] fields p update_keeps_key)
next
  case (Some v)
  then have ge: "get_embedding e (strip raw) w = (Some v, snd (get_embedding e (strip raw) w))"
    by (metis prod.collapse)
  let ?w1 = "snd (get_embedding e (strip raw) w)"
  let ?live = "perform_web_search e (strip raw)"
  note r = resolve_embedded [OF assms(1) ge]
  show ?thesis
  proof (cases "fst (fst (get_from_cache e (strip raw) v ?w1))")
    case None
    have "(p, w') =
      (AList.update (py ''_cache_status'') (JStr (failed_status e ?live)) ?live,
       (snd (load_faiss_cache ?w1))\<lparr>live_searches := live_searches ?w1 @ [strip raw]\<rparr>)"
      using r assms(3) None by (simp add: handle_live_result_error [OF assms(2)])
    then have p: "p = AList.update (py ''_cache_status'') (JStr (failed_status e ?live)) ?live"
      and w': "w' = (snd (load_faiss_cache ?w1))\<lparr>live_searches := live_searches ?w1 @ [strip raw]\<rparr>"
      by simp_all
    have files: "entry_files w' = entry_files w" "index_file w' = index_file w"
      "mapping_file w' = mapping_file w" "live_searches w' = live_searches w @ [strip raw]"
      by (simp_all add: w' load_keeps_files get_embedding_world)
    have w1: "faiss_index ?w1 = faiss_index w" "index_id_to_data ?w1 = index_id_to_data w"
      "next_faiss_id ?w1 = next_faiss_id w" "index_file ?w1 = index_file w"
      "mapping_file ?w1 = mapping_file w"
      by (simp_all add: get_embedding_world)
    show ?thesis
      using None \<open>fst (get_embedding e (strip raw) w) = Some v\<close> assms(2)
      by (simp add: load_view_after_load [OF w'] load_view_cong [OF w1] files p update_keeps_key)
  next
    case (Some data)
    have "(p, w') = (data, snd (load_faiss_cache ?w1))"
      using r assms(3) Some by simp
    then have p: "p = data" and w': "w' = snd (load_faiss_cache ?w1)"
      by simp_all
    have files: "entry_files w' = entry_files w" "index_file w' = index_file w"
      "mapping_file w' = mapping_file w" "live_searches w' = live_searches w"
      by (simp_all add: w' load_keeps_files get_embedding_world)
    have w1: "faiss_index ?w1 = faiss_index w" "index_id_to_data ?w1 = index_id_to_data w"
      "next_faiss_id ?w1 = next_faiss_id w" "index_file ?w1 = index_file w"
      "mapping_file ?w1 = mapping_file w"
      by (simp_all add: get_embedding_world)
    show ?thesis
      using Some \<open>fst (get_embedding e (strip raw) w) = Some v\<close>
      by (simp add: w' load_idem load_view_cong [OF w1] files [unfolded w'] p)
  qed
qed


lemmas run_defs =
  get_search_results_with_cache_def get_embedding_def get_from_cache_def add_to_cache_def
  handle_live_result_def perform_web_search_and_extract_def load_faiss_cache_def
  fresh_cache_def save_faiss_cache_def read_cache_files_def dict_of_items_def
  index_add_def index_search_def IndexFlatIP_def ntotal_def EMBEDDING_DIM_def
  failed_status_def py_str_def cache_filepath_def normalize_query_for_filename_def
  result_to_save_def clean_cached_def hit_status_def CACHE_SIMILARITY_THRESHOLD_def
  strip_def is_space_def py_def Let_def

lemmas sample_defs =
  probe_env_def failing_env_def cold_world_def scraped_def scrape_failed_def

lemma run_failing_cold:
  "get_search_results_with_cache failing_env (QStr (py ''ipl final score'')) cold_world =
     ([(py ''_cache_status'', JStr (py ''Live Search Failed (WebDriver initialization failed)'')),
       (py ''error'', JStr (py ''WebDriver initialization failed''))],
      cold_world\<lparr>faiss_index := Some \<lparr>dim = 768, rows = []\<rparr>,
        embed_calls := [py ''ipl final score''], live_searches := [py ''ipl final score'']\<rparr>)"
  by (simp add: run_defs sample_defs)

theorem failed_live_search_not_cached_witness:
  "strip (py ''ipl final score'') \<noteq> [] \<and>
   (py ''error'') \<in> fst ` set (perform_web_search failing_env (strip (py ''ipl final score''))) \<and>
   fst (get_search_results_with_cache failing_env (QStr (py ''ipl final score'')) cold_world) =
     [(py ''_cache_status'', JStr (py ''Live Search Failed (WebDriver initialization failed)'')),
      (py ''error'', JStr (py ''WebDriver initialization failed''))] \<and>
   entry_files (snd (get_search_results_with_cache failing_env (QStr (py ''ipl final score'')) cold_world))
     = entry_files cold_world \<and>
   fst (load_faiss_cache
     (snd (get_search_results_with_cache failing_env (QStr (py ''ipl final score'')) cold_world)))
     = fst (load_faiss_cache cold_world)"
proof -
  have h1: "strip (py ''ipl final score'') \<noteq> []"
    by (simp add: strip_def is_space_def py_def)
  have h2: "(py ''error'') \<in> fst ` set (perform_web_search failing_env (strip (py ''ipl final score'')))"
    by (simp add: failing_env_def probe_env_def scrape_failed_def)
  note c = failed_live_search_not_cached [OF h1 h2 run_failing_cold]
  have a: "entry_files (snd (get_search_results_with_cache failing_env (QStr (py ''ipl final score'')) cold_world))
     = entry_files cold_world"
    using c by (simp only: run_failing_cold snd_conv)
  have b: "fst (load_faiss_cache
     (snd (get_search_results_with_cache failing_env (QStr (py ''ipl final score'')) cold_world)))
     = fst (load_faiss_cache cold_world)"
    using c by (simp only: run_failing_cold snd_conv)
  show ?thesis
    using h1 h2 a b by (simp only: run_failing_cold fst_conv simp_thms)
qed

subsection \<open>The sample vectors\<close>

lemma inner_product_Cons: "inner_product (a # x) (b # y) = a * b + inner_product x y"
  by (simp add: inner_product_def)

lemma inner_product_zeros: "inner_product (replicate n 0) y = 0"
proof (induction n arbitrary: y)
  case 0
  show ?case by (simp add: inner_product_def)
next
  case (Suc n)
  show ?case
  proof (cases y)
    case Nil
    then show ?thesis by (simp add: inner_product_def)
  next
    case (Cons b ys)
    then show ?thesis using Suc by (simp add: inner_product_Cons)
  qed
qed

lemma inner_product_Nil: "inner_product [] y = 0"
  by (simp add: inner_product_def)

lemma norm_L2sqr_Cons: "norm_L2sqr (a # x) = a * a + norm_L2sqr x"
  by (simp add: norm_L2sqr_def)

lemma norm_L2sqr_zeros: "norm_L2sqr (replicate n 0) = 0"
  by (induction n) (simp_all add: norm_L2sqr_def)

lemma e1_facts:
  "length e1 = 768" "norm_L2sqr e1 = 1" "normalize_L2 e1 = e1"
  "inner_product e1 boundary_vec = 96 / 100" "inner_product e1 e1 = 1"
proof -
  show "length e1 = 768" by (simp add: e1_def)
  show n: "norm_L2sqr e1 = 1" by (simp add: e1_def norm_L2sqr_Cons norm_L2sqr_zeros)
  show "normalize_L2 e1 = e1" by (rule normalize_L2_of_unit [OF n])
  show "inner_product e1 boundary_vec = 96 / 100"
    by (simp add: e1_def boundary_vec_def inner_product_Cons inner_product_zeros)
  show "inner_product e1 e1 = 1" by (simp add: inner_product_self n)
qed

subsection \<open>Loading from disk\<close>

lemma load_fresh_cases:
  assumes "faiss_index w = None"
    and "index_file w = None \<or> mapping_file w = None \<or>
         index_file w = Some IndexCorrupt \<or> mapping_file w = Some MappingCorrupt \<or>
         (\<exists>ix n items. index_file w = Some (IndexData ix) \<and>
            mapping_file w = Some (MappingData n items) \<and>
            ntotal ix \<noteq> int (length (dict_of_items items)))"
  shows "load_faiss_cache w = fresh_cache w"
  using assms
  by (auto simp: load_faiss_cache_def read_cache_files_def Let_def
      split: option.splits index_blob.splits mapping_blob.splits sum.splits)

text \<open>
  Claim C7. \<open>load_faiss_cache\<close> is a total function whose result has no error: every
  exception of its \<open>try\<close> block is an \<open>Inl\<close> of \<open>read_cache_files\<close>, which it answers
  with a fresh cache. On a cache not yet loaded, with the index file missing, the mapping
  file missing, either file unreadable, or an index whose size differs from the size of
  the mapping, it yields the empty index of the configured dimension, the empty mapping
  and the counter 0. That cache is usable: a lookup in it is a miss, and a vector of the
  configured dimension can be appended to it.
\<close>

theorem load_is_fail_safe:
  assumes "faiss_index w = None"
    and "index_file w = None \<or> mapping_file w = None \<or>
         index_file w = Some IndexCorrupt \<or> mapping_file w = Some MappingCorrupt \<or>
         (\<exists>ix n items. index_file w = Some (IndexData ix) \<and>
            mapping_file w = Some (MappingData n items) \<and>
            ntotal ix \<noteq> int (length (dict_of_items items)))"
  shows "load_faiss_cache w =
      (\<lparr>dim = EMBEDDING_DIM, rows = []\<rparr>,
       w\<lparr>faiss_index := Some \<lparr>dim = EMBEDDING_DIM, rows = []\<rparr>,
         index_id_to_data := [], next_faiss_id := 0\<rparr>) \<and>
    ntotal (fst (load_faiss_cache w)) = 0 \<and>
    fst (get_from_cache e q v w) = (None, - 1) \<and>
    (length v = EMBEDDING_DIM \<longrightarrow>
       index_add (fst (load_faiss_cache w)) v = Inr \<lparr>dim = EMBEDDING_DIM, rows = [v]\<rparr>)"
  by (simp add: load_fresh_cases [OF assms] fresh_cache_def IndexFlatIP_def ntotal_def
      get_from_cache_def index_add_def)

theorem load_is_fail_safe_witness:
  "faiss_index torn_world = None \<and>
   load_faiss_cache torn_world =
      (\<lparr>dim = EMBEDDING_DIM, rows = []\<rparr>,
       torn_world\<lparr>faiss_index := Some \<lparr>dim = EMBEDDING_DIM, rows = []\<rparr>,
         index_id_to_data := [], next_faiss_id := 0\<rparr>) \<and>
   fst (get_from_cache probe_env (py ''ipl final'') e1 torn_world) = (None, - 1) \<and>
   index_add (fst (load_faiss_cache torn_world)) e1 = Inr \<lparr>dim = EMBEDDING_DIM, rows = [e1]\<rparr>"
proof -
  have h1: "faiss_index torn_world = None"
    by (simp add: torn_world_def cold_world_def)
  have h2: "index_file torn_world = None \<or> mapping_file torn_world = None \<or>
         index_file torn_world = Some IndexCorrupt \<or> mapping_file torn_world = Some MappingCorrupt \<or>
         (\<exists>ix n items. index_file torn_world = Some (IndexData ix) \<and>
            mapping_file torn_world = Some (MappingData n items) \<and>
            ntotal ix \<noteq> int (length (dict_of_items items)))"
    by (simp add: torn_world_def cold_world_def ntotal_def dict_of_items_def)
  have h3: "length e1 = EMBEDDING_DIM"
    by (simp add: e1_facts EMBEDDING_DIM_def)
  show ?thesis
    using load_is_fail_safe [OF h1 h2, of probe_env "(py ''ipl final'')" e1] h1 h3
    by blast
qed

subsection \<open>The threshold\<close>

lemma save_keeps_logs:
  "live_searches (save_faiss_cache e w) = live_searches w"
  "embed_calls (save_faiss_cache e w) = embed_calls w"
  "faiss_index (save_faiss_cache e w) = faiss_index w"
  "index_id_to_data (save_faiss_cache e w) = index_id_to_data w"
  "next_faiss_id (save_faiss_cache e w) = next_faiss_id w"
  "entry_files (save_faiss_cache e w) = entry_files w"
  by (simp_all add: save_faiss_cache_def split: option.splits save_fault.splits)

lemma add_to_cache_keeps_logs:
  "live_searches (snd (add_to_cache e q v r w)) = live_searches w"
  "embed_calls (snd (add_to_cache e q v r w)) = embed_calls w"
  by (simp_all add: add_to_cache_def Let_def case_prod_beta save_keeps_logs load_keeps_files
      split: option.splits sum.splits)

lemma handle_live_result_keeps_logs:
  "live_searches (snd (handle_live_result e q v r w)) = live_searches w"
  "embed_calls (snd (handle_live_result e q v r w)) = embed_calls w"
  by (simp_all add: handle_live_result_def Let_def case_prod_beta add_to_cache_keeps_logs)

lemma get_from_cache_scored:
  assumes "load_faiss_cache w = (ix, w1)" and "ntotal ix \<noteq> 0"
    and "index_search ix (normalize_L2 v) = Inr (i, s)"
  shows "fst (get_from_cache e q v w) =
    (if CACHE_SIMILARITY_THRESHOLD \<le> s then
       (case map_of (index_id_to_data w1) i of
          None \<Rightarrow> (None, - 1)
        | Some (cached_query_str, cached_filepath) \<Rightarrow>
            (case entry_files w1 cached_filepath of
               Some (EntryData d) \<Rightarrow> (Some (clean_cached e s d), s)
             | _ \<Rightarrow> (None, - 1)))
     else (None, - 1))"
  using assms
  by (simp add: get_from_cache_def Let_def split: option.splits entry_blob.splits)

text \<open>
  Claim C4. On a non-empty index whose top-1 search of the normalised query vector
  gives row \<open>i\<close> with score \<open>s\<close>: if \<open>s\<close> is strictly below the threshold 0.96 the
  lookup is a miss and the call performs the live search; if \<open>s\<close> is the threshold or
  more the lookup goes to the mapping entry of row \<open>i\<close> and its entry file, and with
  both present the call returns the stored payload (cleaned, status \<open>HIT ...\<close>) and
  performs no live search. The instance below has the score exactly 0.96.
\<close>

theorem threshold_decision:
  assumes "strip raw \<noteq> []"
    and "get_embedding e (strip raw) w0 = (Some v, w)"
    and "load_faiss_cache w = (ix, w1)"
    and "ntotal ix \<noteq> 0"
    and "index_search ix (normalize_L2 v) = Inr (i, s)"
  shows "(s < CACHE_SIMILARITY_THRESHOLD \<longrightarrow>
       fst (get_from_cache e (strip raw) v w) = (None, - 1) \<and>
       live_searches (snd (get_search_results_with_cache e (QStr raw) w0)) =
         live_searches w0 @ [strip raw]) \<and>
    (CACHE_SIMILARITY_THRESHOLD \<le> s \<longrightarrow>
       fst (get_from_cache e (strip raw) v w) =
         (case map_of (index_id_to_data w1) i of
            None \<Rightarrow> (None, - 1)
          | Some (cached_query_str, cached_filepath) \<Rightarrow>
              (case entry_files w1 cached_filepath of
                 Some (EntryData d) \<Rightarrow> (Some (clean_cached e s d), s)
               | _ \<Rightarrow> (None, - 1)))) \<and>
    (CACHE_SIMILARITY_THRESHOLD \<le> s \<and> map_of (index_id_to_data w1) i = Some (cq, path) \<and>
     entry_files w1 path = Some (EntryData d) \<longrightarrow>
       get_search_results_with_cache e (QStr raw) w0 = (clean_cached e s d, w1))"
proof -
  note g = get_from_cache_scored [OF assms(3-5), of e "strip raw"]
  note r = resolve_embedded [OF assms(1,2)]
  have lw: "live_searches w = live_searches w0"
    using get_embedding_world(7) [of e "strip raw" w0] assms(2) by simp
  have w1: "snd (load_faiss_cache w) = w1"
    using assms(3) by simp
  show ?thesis
  proof (intro conjI impI)
    assume "s < CACHE_SIMILARITY_THRESHOLD"
    then show "fst (get_from_cache e (strip raw) v w) = (None, - 1)"
      using g by simp
    then show "live_searches (snd (get_search_results_with_cache e (QStr raw) w0)) =
         live_searches w0 @ [strip raw]"
      by (simp add: r handle_live_result_keeps_logs lw)
  next
    assume "CACHE_SIMILARITY_THRESHOLD \<le> s"
    then show "fst (get_from_cache e (strip raw) v w) =
         (case map_of (index_id_to_data w1) i of
            None \<Rightarrow> (None, - 1)
          | Some (cached_query_str, cached_filepath) \<Rightarrow>
              (case entry_files w1 cached_filepath of
                 Some (EntryData d) \<Rightarrow> (Some (clean_cached e s d), s)
               | _ \<Rightarrow> (None, - 1)))"
      using g by simp
  next
    assume "CACHE_SIMILARITY_THRESHOLD \<le> s \<and> map_of (index_id_to_data w1) i = Some (cq, path) \<and>
     entry_files w1 path = Some (EntryData d)"
    then have "fst (get_from_cache e (strip raw) v w) = (Some (clean_cached e s d), s)"
      using g by simp
    then show "get_search_results_with_cache e (QStr raw) w0 = (clean_cached e s d, w1)"
      by (simp add: r w1)
  qed
qed

lemma warm_facts:
  "strip (py ''ipl final score'') = (py ''ipl final score'')"
  "get_embedding probe_env (py ''ipl final score'') warm_world =
     (Some e1, warm_world\<lparr>embed_calls := [py ''ipl final score'']\<rparr>)"
  "load_faiss_cache (warm_world\<lparr>embed_calls := [py ''ipl final score'']\<rparr>) =
     (\<lparr>dim = 768, rows = [boundary_vec]\<rparr>, warm_world\<lparr>embed_calls := [py ''ipl final score'']\<rparr>)"
  "index_search \<lparr>dim = 768, rows = [boundary_vec]\<rparr> (normalize_L2 e1) = Inr (0, 96 / 100)"
  by (simp_all add: strip_def is_space_def py_def get_embedding_def probe_env_def warm_world_def
      load_faiss_cache_def index_search_def e1_facts Let_def)

theorem threshold_decision_witness:
  "get_search_results_with_cache probe_env (QStr (py ''ipl final score'')) warm_world =
     (clean_cached probe_env (96 / 100) stored_entry,
      warm_world\<lparr>embed_calls := [py ''ipl final score'']\<rparr>)"
proof -
  have h1: "strip (py ''ipl final score'') \<noteq> []"
    by (simp add: warm_facts)
  have h2: "get_embedding probe_env (strip (py ''ipl final score'')) warm_world =
     (Some e1, warm_world\<lparr>embed_calls := [py ''ipl final score'']\<rparr>)"
    by (simp add: warm_facts)
  have h4: "ntotal \<lparr>dim = 768, rows = [boundary_vec]\<rparr> \<noteq> 0"
    by (simp add: ntotal_def)
  have h6: "CACHE_SIMILARITY_THRESHOLD \<le> 96 / 100 \<and>
     map_of (index_id_to_data (warm_world\<lparr>embed_calls := [py ''ipl final score'']\<rparr>)) 0 =
       Some (py ''ipl final'', cache_filepath probe_env (py ''ipl final'')) \<and>
     entry_files (warm_world\<lparr>embed_calls := [py ''ipl final score'']\<rparr>)
       (cache_filepath probe_env (py ''ipl final'')) = Some (EntryData stored_entry)"
    by (simp add: CACHE_SIMILARITY_THRESHOLD_def warm_world_def)
  show ?thesis
    using threshold_decision [OF h1 h2 warm_facts(3) h4 warm_facts(4)] h6
    by blast
qed

subsection \<open>The query vector is normalised in place\<close>

lemma add_to_cache_appends:
  assumes "load_faiss_cache w = (ix, w1)" and "\<not> entry_write_fails e" and "length v = dim ix"
  shows "add_to_cache e q (Some v) r w =
    (True,
     save_faiss_cache e
       (w1\<lparr>entry_files := (entry_files w1)(cache_filepath e q \<mapsto> EntryData (result_to_save e q r)),
          faiss_index := Some (ix\<lparr>rows := rows ix @ [v]\<rparr>),
          index_id_to_data :=
            AList.update (next_faiss_id w1) (q, cache_filepath e q) (index_id_to_data w1),
          next_faiss_id := next_faiss_id w1 + 1\<rparr>))"
  using assms by (simp add: add_to_cache_def index_add_def Let_def)

lemma lookup_array:
  assumes "load_faiss_cache w = (ix, w1)"
  shows "fst (snd (get_from_cache e q v w)) = (if ntotal ix = 0 then v else normalize_L2 v)"
  using assms
  by (simp add: get_from_cache_def Let_def split: sum.splits option.splits entry_blob.splits prod.splits)

lemma normalize_L2_scaled:
  assumes "0 < norm_L2sqr v"
  shows "normalize_L2 v = map (\<lambda>a. a / norm_L2 v) v" and "norm_L2 (normalize_L2 v) = 1"
  using assms normalize_L2_unit [OF assms]
  by (simp_all add: normalize_L2_def norm_L2_def Let_def)

text \<open>
  Claim C10. \<open>get_from_cache\<close> writes into the array of its caller. After the call the
  caller's array is the L2-normalised query vector when the index is not empty (for a
  vector that is not zero this is the original divided by its norm, and it has norm 1;
  a zero vector stays as it is), and it is the untouched vector when the index is
  empty. On a miss with a live result that is cached, the row appended to the index is
  this array.
\<close>

theorem lookup_normalizes_in_place:
  assumes "strip raw \<noteq> []"
    and "get_embedding e (strip raw) w0 = (Some v, w)"
    and "load_faiss_cache w = (ix, w1)"
  shows "(ntotal ix = 0 \<longrightarrow> fst (snd (get_from_cache e (strip raw) v w)) = v) \<and>
    (ntotal ix \<noteq> 0 \<longrightarrow> fst (snd (get_from_cache e (strip raw) v w)) = normalize_L2 v) \<and>
    (ntotal ix \<noteq> 0 \<and> 0 < norm_L2sqr v \<longrightarrow>
       fst (snd (get_from_cache e (strip raw) v w)) = map (\<lambda>a. a / norm_L2 v) v \<and>
       norm_L2 (fst (snd (get_from_cache e (strip raw) v w))) = 1) \<and>
    (fst (fst (get_from_cache e (strip raw) v w)) = None \<and>
     (py ''error'') \<notin> fst ` set (perform_web_search e (strip raw)) \<and>
     perform_web_search e (strip raw) \<noteq> [] \<and> \<not> entry_write_fails e \<and> length v = dim ix \<longrightarrow>
       faiss_index (snd (get_search_results_with_cache e (QStr raw) w0)) =
         Some (ix\<lparr>rows := rows ix @ [fst (snd (get_from_cache e (strip raw) v w))]\<rparr>))"
proof (intro conjI impI)
  note a = lookup_array [OF assms(3), of e "strip raw" v]
  show "fst (snd (get_from_cache e (strip raw) v w)) = v" if "ntotal ix = 0"
    using a that by simp
  show n: "fst (snd (get_from_cache e (strip raw) v w)) = normalize_L2 v" if "ntotal ix \<noteq> 0"
    using a that by simp
  show "fst (snd (get_from_cache e (strip raw) v w)) = map (\<lambda>a. a / norm_L2 v) v"
    if "ntotal ix \<noteq> 0 \<and> 0 < norm_L2sqr v"
    using n that normalize_L2_scaled(1) by simp
  show "norm_L2 (fst (snd (get_from_cache e (strip raw) v w))) = 1"
    if "ntotal ix \<noteq> 0 \<and> 0 < norm_L2sqr v"
    using n that normalize_L2_scaled(2) by simp
  show "faiss_index (snd (get_search_results_with_cache e (QStr raw) w0)) =
         Some (ix\<lparr>rows := rows ix @ [fst (snd (get_from_cache e (strip raw) v w))]\<rparr>)"
    if h: "fst (fst (get_from_cache e (strip raw) v w)) = None \<and>
     (py ''error'') \<notin> fst ` set (perform_web_search e (strip raw)) \<and>
     perform_web_search e (strip raw) \<noteq> [] \<and> \<not> entry_write_fails e \<and> length v = dim ix"
  proof -
    let ?v' = "fst (snd (get_from_cache e (strip raw) v w))"
    let ?w2 = "(snd (load_faiss_cache w))\<lparr>live_searches := live_searches w @ [strip raw]\<rparr>"
    have len: "length ?v' = dim ix"
      using a h by (simp add: normalize_L2_length)
    have "faiss_index ?w2 = Some ix"
      using assms(3) load_sets_index [of w] by simp
    then have ld: "load_faiss_cache ?w2 = (ix, ?w2)"
      by (rule load_loaded)
    have "get_search_results_with_cache e (QStr raw) w0 =
      handle_live_result e (strip raw) ?v' (perform_web_search e (strip raw)) ?w2"
      using resolve_embedded [OF assms(1,2)] h by simp
    then show ?thesis
      using h add_to_cache_appends [OF ld _ len, of e]
      by (simp add: handle_live_result_def save_keeps_logs)
  qed
qed

lemma inner_product_commute: "inner_product x y = inner_product y x"
proof (induction x arbitrary: y)
  case Nil
  show ?case by (simp add: inner_product_def)
next
  case (Cons a x)
  show ?case
  proof (cases y)
    case Nil
    then show ?thesis by (simp add: inner_product_def)
  next
    case (Cons b ys)
    then show ?thesis
      using Cons.IH [of ys] by (simp add: inner_product_Cons)
  qed
qed

lemma inner_product_zeros_right: "inner_product x (replicate n 0) = 0"
  using inner_product_commute [of x "replicate n 0"] by (simp add: inner_product_zeros)

lemma long_vec_facts:
  "length long_vec = 768" "norm_L2sqr long_vec = 4" "normalize_L2 long_vec = e2"
  "norm_L2 long_vec = 2"
proof -
  show "length long_vec = 768" by (simp add: long_vec_def)
  show n: "norm_L2sqr long_vec = 4"
    by (simp add: long_vec_def norm_L2sqr_Cons norm_L2sqr_zeros)
  have s: "sqrt 4 = 2"
    using real_sqrt_abs [of 2] by simp
  show "normalize_L2 long_vec = e2"
    unfolding normalize_L2_def n Let_def s
    by (simp add: long_vec_def e2_def)
  show "norm_L2 long_vec = 2"
    by (simp add: norm_L2_def n s)
qed

lemma e2_facts:
  "length e2 = 768" "norm_L2sqr e2 = 1" "normalize_L2 e2 = e2"
  "inner_product e2 boundary_vec = 28 / 100" "inner_product e2 e1 = 0"
proof -
  show "length e2 = 768" by (simp add: e2_def)
  show n: "norm_L2sqr e2 = 1" by (simp add: e2_def norm_L2sqr_Cons norm_L2sqr_zeros)
  show "normalize_L2 e2 = e2" by (rule normalize_L2_of_unit [OF n])
  show "inner_product e2 boundary_vec = 28 / 100"
    by (simp add: e2_def boundary_vec_def inner_product_Cons inner_product_zeros)
  show "inner_product e2 e1 = 0"
    by (simp add: e2_def e1_def inner_product_Cons inner_product_zeros)
      (simp add: inner_product_zeros_right)
qed

lemma warm_nba_facts:
  "strip (py ''nba standings'') = (py ''nba standings'')"
  "get_embedding probe_env (py ''nba standings'') warm_world =
     (Some long_vec, warm_world\<lparr>embed_calls := [py ''nba standings'']\<rparr>)"
  "load_faiss_cache (warm_world\<lparr>embed_calls := [py ''nba standings'']\<rparr>) =
     (\<lparr>dim = 768, rows = [boundary_vec]\<rparr>, warm_world\<lparr>embed_calls := [py ''nba standings'']\<rparr>)"
  "fst (fst (get_from_cache probe_env (py ''nba standings'') long_vec
     (warm_world\<lparr>embed_calls := [py ''nba standings'']\<rparr>))) = None"
  by (simp_all add: strip_def is_space_def py_def get_embedding_def probe_env_def warm_world_def
      load_faiss_cache_def get_from_cache_def index_search_def long_vec_facts e2_facts ntotal_def
      CACHE_SIMILARITY_THRESHOLD_def Let_def)

theorem lookup_normalizes_in_place_witness:
  "fst (snd (get_from_cache probe_env (py ''nba standings'') long_vec
     (warm_world\<lparr>embed_calls := [py ''nba standings'']\<rparr>))) = e2 \<and>
   norm_L2 long_vec = 2 \<and> norm_L2 e2 = 1 \<and>
   faiss_index (snd (get_search_results_with_cache probe_env (QStr (py ''nba standings'')) warm_world)) =
     Some \<lparr>dim = 768, rows = [boundary_vec, e2]\<rparr>"
proof -
  have h1: "strip (py ''nba standings'') \<noteq> []"
    by (simp add: warm_nba_facts)
  have h2: "get_embedding probe_env (strip (py ''nba standings'')) warm_world =
     (Some long_vec, warm_world\<lparr>embed_calls := [py ''nba standings'']\<rparr>)"
    by (simp add: warm_nba_facts)
  note c = lookup_normalizes_in_place [OF h1 h2 warm_nba_facts(3)]
  have nz: "ntotal \<lparr>dim = 768, rows = [boundary_vec]\<rparr> \<noteq> 0"
    by (simp add: ntotal_def)
  have a: "fst (snd (get_from_cache probe_env (py ''nba standings'') long_vec
     (warm_world\<lparr>embed_calls := [py ''nba standings'']\<rparr>))) = e2"
    using c nz by (simp add: warm_nba_facts(1) long_vec_facts)
  have live: "(py ''error'') \<notin> fst ` set (perform_web_search probe_env (py ''nba standings'')) \<and>
     perform_web_search probe_env (py ''nba standings'') \<noteq> [] \<and> \<not> entry_write_fails probe_env"
    by (simp add: probe_env_def scraped_def)
  have b: "faiss_index (snd (get_search_results_with_cache probe_env (QStr (py ''nba standings'')) warm_world)) =
     Some \<lparr>dim = 768, rows = [boundary_vec, e2]\<rparr>"
    using c live a by (simp add: warm_nba_facts long_vec_facts)
  show ?thesis
    using a b by (simp add: long_vec_facts norm_L2_def e2_facts)
qed

subsection \<open>A miss whose live result is cached\<close>

lemma resolve_miss_cached:
  assumes "strip raw \<noteq> []"
    and "get_embedding e (strip raw) w0 = (Some v, w)"
    and "load_faiss_cache w = (ix, w1)"
    and "fst (fst (get_from_cache e (strip raw) v w)) = None"
    and "(py ''error'') \<notin> fst ` set (perform_web_search e (strip raw))"
    and "perform_web_search e (strip raw) \<noteq> []"
    and "\<not> entry_write_fails e"
    and "length v = dim ix"
  shows "get_search_results_with_cache e (QStr raw) w0 =
    (AList.update (py ''_cache_status'') (JStr (py ''Live Search (Cache Miss)''))
       (perform_web_search e (strip raw)),
     save_faiss_cache e
       (w1\<lparr>live_searches := live_searches w0 @ [strip raw],
          entry_files := (entry_files w1)(cache_filepath e (strip raw) \<mapsto>
             EntryData (result_to_save e (strip raw) (perform_web_search e (strip raw)))),
          faiss_index := Some (ix\<lparr>rows := rows ix @ [if ntotal ix = 0 then v else normalize_L2 v]\<rparr>),
          index_id_to_data :=
            AList.update (next_faiss_id w1) (strip raw, cache_filepath e (strip raw))
              (index_id_to_data w1),
          next_faiss_id := next_faiss_id w1 + 1\<rparr>))"
proof -
  let ?v' = "fst (snd (get_from_cache e (strip raw) v w))"
  let ?w2 = "w1\<lparr>live_searches := live_searches w @ [strip raw]\<rparr>"
  have v': "?v' = (if ntotal ix = 0 then v else normalize_L2 v)"
    by (rule lookup_array [OF assms(3)])
  have len: "length ?v' = dim ix"
    using v' assms(8) by (simp add: normalize_L2_length)
  have lw: "live_searches w = live_searches w0"
    using get_embedding_world(7) [of e "strip raw" w0] assms(2) by simp
  have "faiss_index ?w2 = Some ix"
    using assms(3) load_sets_index [of w] by simp
  then have ld: "load_faiss_cache ?w2 = (ix, ?w2)"
    by (rule load_loaded)
  have "get_search_results_with_cache e (QStr raw) w0 =
    handle_live_result e (strip raw) ?v' (perform_web_search e (strip raw)) ?w2"
    using resolve_embedded [OF assms(1,2)] assms(3,4) by simp
  then show ?thesis
    using assms(5-7) add_to_cache_appends [OF ld assms(7) len] v' lw
    by (simp add: handle_live_result_def)
qed

lemma cold_facts:
  "load_faiss_cache (cold_world\<lparr>embed_calls := c\<rparr>) =
     (\<lparr>dim = 768, rows = []\<rparr>,
      cold_world\<lparr>faiss_index := Some \<lparr>dim = 768, rows = []\<rparr>, embed_calls := c\<rparr>)"
  "fst (fst (get_from_cache e q v (cold_world\<lparr>embed_calls := c\<rparr>))) = None"
  by (simp_all add: cold_world_def load_faiss_cache_def fresh_cache_def IndexFlatIP_def
      EMBEDDING_DIM_def get_from_cache_def ntotal_def)

lemma probe_live:
  "(py ''error'') \<notin> fst ` set (perform_web_search probe_env q)"
  "perform_web_search probe_env q \<noteq> []"
  "\<not> entry_write_fails probe_env"
  "perform_web_search probe_env q = scraped"
  by (simp_all add: probe_env_def scraped_def)

lemma cold_nba_facts:
  "strip (py ''nba standings'') \<noteq> []"
  "get_embedding probe_env (strip (py ''nba standings'')) cold_world =
     (Some long_vec, cold_world\<lparr>embed_calls := [py ''nba standings'']\<rparr>)"
  by (simp_all add: strip_def is_space_def py_def get_embedding_def probe_env_def cold_world_def Let_def)

text \<open>
  Claim C2, at a failing input. On a cache that is empty at lookup time the query vector
  is appended as the embedding service gave it: \<open>get_from_cache\<close> returns before it
  normalises. With an embedding of norm 2 the first row of the index has norm 2, not 1.
\<close>

theorem first_vector_not_normalized:
  "faiss_index (snd (get_search_results_with_cache probe_env (QStr (py ''nba standings'')) cold_world))
     = Some \<lparr>dim = 768, rows = [long_vec]\<rparr> \<and>
   norm_L2 long_vec = 2"
proof -
  have len: "length long_vec = dim \<lparr>dim = 768, rows = []\<rparr>"
    by (simp add: long_vec_facts)
  note r = resolve_miss_cached [OF cold_nba_facts cold_facts probe_live(1-3) len]
  show ?thesis
    by (simp add: r save_keeps_logs ntotal_def long_vec_facts)
qed

lemma sample_paths:
  "cache_filepath probe_env (py ''ipl final'') \<noteq> cache_filepath probe_env (py ''ipl final score'')"
  "cache_filepath probe_env (py ''ipl final'') \<noteq> cache_filepath probe_env (py ''epl table'')"
  by (simp_all add: cache_filepath_def normalize_query_for_filename_def probe_env_def CACHE_DIR_def)

lemma stale_facts:
  "strip (py ''ipl final score'') \<noteq> []"
  "get_embedding probe_env (strip (py ''ipl final score'')) stale_world =
     (Some e1, stale_world\<lparr>embed_calls := [py ''ipl final score'']\<rparr>)"
  "load_faiss_cache (stale_world\<lparr>embed_calls := [py ''ipl final score'']\<rparr>) =
     (\<lparr>dim = 768, rows = [e1]\<rparr>, stale_world\<lparr>embed_calls := [py ''ipl final score'']\<rparr>)"
  "fst (fst (get_from_cache probe_env (strip (py ''ipl final score'')) e1
     (stale_world\<lparr>embed_calls := [py ''ipl final score'']\<rparr>))) = None"
  by (simp_all add: strip_def is_space_def py_def get_embedding_def probe_env_def stale_world_def
      load_faiss_cache_def get_from_cache_def index_search_def e1_facts ntotal_def
      CACHE_SIMILARITY_THRESHOLD_def Let_def)

lemma stale_lookup:
  "index_search \<lparr>dim = 768, rows = [e1]\<rparr> (normalize_L2 e1) = Inr (0, 1)"
  "CACHE_SIMILARITY_THRESHOLD \<le> 1"
  "map_of (index_id_to_data stale_world) 0 =
     Some (py ''ipl final'', cache_filepath probe_env (py ''ipl final''))"
  "entry_files stale_world (cache_filepath probe_env (py ''ipl final'')) = None"
  by (simp_all add: index_search_def e1_facts CACHE_SIMILARITY_THRESHOLD_def stale_world_def)

text \<open>
  Claim C1, at a failing input. The index holds one row, the mapping has its record, the
  entry file of the record is gone, and the query embeds to that very row: the score 1
  meets the threshold and row 0 is in the mapping. The call performs the live search,
  but the record of row 0 is still in the mapping after the call, and its file is still
  missing.
\<close>

theorem stale_mapping_entry_kept:
  "index_search \<lparr>dim = 768, rows = [e1]\<rparr> (normalize_L2 e1) = Inr (0, 1) \<and>
   CACHE_SIMILARITY_THRESHOLD \<le> 1 \<and>
   map_of (index_id_to_data stale_world) 0 =
     Some (py ''ipl final'', cache_filepath probe_env (py ''ipl final'')) \<and>
   entry_files stale_world (cache_filepath probe_env (py ''ipl final'')) = None \<and>
   live_searches (snd (get_search_results_with_cache probe_env (QStr (py ''ipl final score'')) stale_world))
     = [py ''ipl final score''] \<and>
   index_id_to_data (snd (get_search_results_with_cache probe_env (QStr (py ''ipl final score'')) stale_world))
     = [(0, py ''ipl final'', cache_filepath probe_env (py ''ipl final'')),
        (1, py ''ipl final score'', cache_filepath probe_env (py ''ipl final score''))] \<and>
   entry_files (snd (get_search_results_with_cache probe_env (QStr (py ''ipl final score'')) stale_world))
     (cache_filepath probe_env (py ''ipl final'')) = None"
proof -
  have len: "length e1 = dim \<lparr>dim = 768, rows = [e1]\<rparr>"
    by (simp add: e1_facts)
  have s: "strip (py ''ipl final score'') = (py ''ipl final score'')"
    by (simp add: strip_def is_space_def py_def)
  note r = resolve_miss_cached [OF stale_facts probe_live(1-3) len]
  show ?thesis
    by (simp add: r save_keeps_logs stale_lookup) (simp add: stale_world_def s sample_paths)
qed

lemma unsynced_facts:
  "strip (py ''epl table'') \<noteq> []"
  "get_embedding probe_env (strip (py ''epl table'')) unsynced_world =
     (Some e2, unsynced_world\<lparr>embed_calls := [py ''epl table'']\<rparr>)"
  "load_faiss_cache (unsynced_world\<lparr>embed_calls := [py ''epl table'']\<rparr>) =
     (\<lparr>dim = 768, rows = [e1]\<rparr>,
      unsynced_world\<lparr>faiss_index := Some \<lparr>dim = 768, rows = [e1]\<rparr>,
        index_id_to_data := [(0, py ''ipl final'', cache_filepath probe_env (py ''ipl final''))],
        next_faiss_id := 0, embed_calls := [py ''epl table'']\<rparr>)"
  "fst (fst (get_from_cache probe_env (strip (py ''epl table'')) e2
     (unsynced_world\<lparr>embed_calls := [py ''epl table'']\<rparr>))) = None"
  by (simp_all add: strip_def is_space_def py_def get_embedding_def probe_env_def unsynced_world_def
      cold_world_def load_faiss_cache_def read_cache_files_def dict_of_items_def
      get_from_cache_def index_search_def e2_facts ntotal_def
      CACHE_SIMILARITY_THRESHOLD_def Let_def)

text \<open>
  Claim C6, a counterexample. The mapping file has one record and no \<open>next_id\<close> (read
  as 0), the index file has one row. The load accepts the pair: the sizes agree, and a
  counter of 0 is not even warned about. The next append writes its record under the
  row id 0, over the record of the first row: two vectors, one record, and the row id of
  the appended record is not the vector count before the insertion.
\<close>

theorem sizes_differ_after_unsynced_load:
  "faiss_index (snd (get_search_results_with_cache probe_env (QStr (py ''epl table'')) unsynced_world))
     = Some \<lparr>dim = 768, rows = [e1, e2]\<rparr> \<and>
   index_id_to_data (snd (get_search_results_with_cache probe_env (QStr (py ''epl table'')) unsynced_world))
     = [(0, py ''epl table'', cache_filepath probe_env (py ''epl table''))] \<and>
   int (length (index_id_to_data
     (snd (get_search_results_with_cache probe_env (QStr (py ''epl table'')) unsynced_world))))
     \<noteq> ntotal \<lparr>dim = 768, rows = [e1, e2]\<rparr>"
proof -
  have len: "length e2 = dim \<lparr>dim = 768, rows = [e1]\<rparr>"
    by (simp add: e2_facts)
  have s: "strip (py ''epl table'') = (py ''epl table'')"
    by (simp add: strip_def is_space_def py_def)
  note r = resolve_miss_cached [OF unsynced_facts probe_live(1-3) len]
  show ?thesis
    by (simp add: r save_keeps_logs) (simp add: ntotal_def e2_facts s)
qed

lemma ahead_facts:
  "strip (py ''epl table'') \<noteq> []"
  "get_embedding probe_env (strip (py ''epl table'')) ahead_world =
     (Some e2, ahead_world\<lparr>embed_calls := [py ''epl table'']\<rparr>)"
  "load_faiss_cache (ahead_world\<lparr>embed_calls := [py ''epl table'']\<rparr>) =
     (\<lparr>dim = 768, rows = [e1]\<rparr>,
      ahead_world\<lparr>faiss_index := Some \<lparr>dim = 768, rows = [e1]\<rparr>,
        index_id_to_data := [(1, py ''ipl final'', cache_filepath probe_env (py ''ipl final''))],
        next_faiss_id := 1, embed_calls := [py ''epl table'']\<rparr>)"
  "fst (fst (get_from_cache probe_env (strip (py ''epl table'')) e2
     (ahead_world\<lparr>embed_calls := [py ''epl table'']\<rparr>))) = None"
  by (simp_all add: strip_def is_space_def py_def get_embedding_def probe_env_def ahead_world_def
      cold_world_def load_faiss_cache_def read_cache_files_def dict_of_items_def
      get_from_cache_def index_search_def e2_facts ntotal_def
      CACHE_SIMILARITY_THRESHOLD_def Let_def)

text \<open>
  The counter being the vector count is not enough: when the mapping has a record under
  the counter itself, the next append writes over that record, and again there are two
  vectors and one record.
\<close>

lemma record_at_counter_overwritten:
  "faiss_index (snd (get_search_results_with_cache probe_env (QStr (py ''epl table'')) ahead_world))
     = Some \<lparr>dim = 768, rows = [e1, e2]\<rparr> \<and>
   index_id_to_data (snd (get_search_results_with_cache probe_env (QStr (py ''epl table'')) ahead_world))
     = [(1, py ''epl table'', cache_filepath probe_env (py ''epl table''))]"
proof -
  have len: "length e2 = dim \<lparr>dim = 768, rows = [e1]\<rparr>"
    by (simp add: e2_facts)
  have s: "strip (py ''epl table'') = (py ''epl table'')"
    by (simp add: strip_def is_space_def py_def)
  note r = resolve_miss_cached [OF ahead_facts probe_live(1-3) len]
  show ?thesis
    by (simp add: r save_keeps_logs) (simp add: ntotal_def e2_facts s)
qed

subsection \<open>Index and mapping stay in step\<close>

lemma update_fresh_key: "k \<notin> fst ` set al \<Longrightarrow> AList.update k v al = al @ [(k, v)]"
  by (induction al) auto

lemma load_sizes_agree:
  assumes "faiss_index w = None"
  shows "int (length (index_id_to_data (snd (load_faiss_cache w)))) = ntotal (fst (load_faiss_cache w))"
  using assms
  by (auto simp: load_faiss_cache_def fresh_cache_def read_cache_files_def IndexFlatIP_def
      ntotal_def Let_def
      split: option.splits index_blob.splits mapping_blob.splits sum.splits if_splits)

lemma in_step_cong:
  assumes "faiss_index w2 = faiss_index w" "index_id_to_data w2 = index_id_to_data w"
    "next_faiss_id w2 = next_faiss_id w" "index_file w2 = index_file w"
    "mapping_file w2 = mapping_file w"
  shows "counter_in_step w2 = counter_in_step w"
  by (simp add: counter_in_step_def case_prod_beta load_view_cong [OF assms])

lemma in_step_load: "counter_in_step (snd (load_faiss_cache w)) = counter_in_step w"
  by (simp add: counter_in_step_def load_idem)

lemma in_step_loaded:
  "faiss_index w = Some ix \<Longrightarrow>
   counter_in_step w =
     (next_faiss_id w = ntotal ix \<and> int (length (index_id_to_data w)) = ntotal ix \<and>
      (\<forall>k \<in> fst ` set (index_id_to_data w). k < next_faiss_id w))"
  by (simp add: counter_in_step_def load_loaded)

lemma in_step_reset:
  assumes "faiss_index w = None"
    and "index_file w = None \<or> mapping_file w = None \<or>
         index_file w = Some IndexCorrupt \<or> mapping_file w = Some MappingCorrupt \<or>
         (\<exists>ix n items. index_file w = Some (IndexData ix) \<and>
            mapping_file w = Some (MappingData n items) \<and>
            ntotal ix \<noteq> int (length (dict_of_items items)))"
  shows "counter_in_step w"
proof -
  have "load_faiss_cache w = fresh_cache w"
    using assms by (rule load_fresh_cases)
  then show ?thesis
    by (simp add: counter_in_step_def fresh_cache_def IndexFlatIP_def ntotal_def)
qed

lemma in_step_append:
  assumes "counter_in_step w" and "load_faiss_cache w = (ix, w1)"
    and "add_to_cache e q (Some v) r w = (True, w')"
  shows "faiss_index w' = Some (ix\<lparr>rows := rows ix @ [v]\<rparr>)"
    and "index_id_to_data w' = index_id_to_data w1 @ [(ntotal ix, q, cache_filepath e q)]"
    and "next_faiss_id w' = ntotal ix + 1"
    and "counter_in_step w'"
proof -
  have ok: "\<not> entry_write_fails e" "length v = dim ix"
    using assms(2,3)
    by (auto simp: add_to_cache_def index_add_def Let_def split: if_splits)
  have ix: "faiss_index w1 = Some ix"
    using load_sets_index [of w] assms(2) by simp
  have st: "next_faiss_id w1 = ntotal ix" "int (length (index_id_to_data w1)) = ntotal ix"
    "\<forall>k \<in> fst ` set (index_id_to_data w1). k < next_faiss_id w1"
    using assms(1,2) by (auto simp: counter_in_step_def)
  have fresh: "ntotal ix \<notin> fst ` set (index_id_to_data w1)"
    using st(1,3) by auto
  have w': "w' = save_faiss_cache e
       (w1\<lparr>entry_files := (entry_files w1)(cache_filepath e q \<mapsto> EntryData (result_to_save e q r)),
          faiss_index := Some (ix\<lparr>rows := rows ix @ [v]\<rparr>),
          index_id_to_data :=
            AList.update (next_faiss_id w1) (q, cache_filepath e q) (index_id_to_data w1),
          next_faiss_id := next_faiss_id w1 + 1\<rparr>)"
    using add_to_cache_appends [OF assms(2) ok, of q r] assms(3) by simp
  show a: "faiss_index w' = Some (ix\<lparr>rows := rows ix @ [v]\<rparr>)"
    by (simp add: w' save_keeps_logs)
  show b: "index_id_to_data w' = index_id_to_data w1 @ [(ntotal ix, q, cache_filepath e q)]"
    using fresh by (simp add: w' save_keeps_logs st(1) update_fresh_key)
  show c: "next_faiss_id w' = ntotal ix + 1"
    by (simp add: w' save_keeps_logs st(1))
  show "counter_in_step w'"
    using st fresh by (simp add: in_step_loaded [OF a] b c) (auto simp: ntotal_def)
qed

lemma in_step_add:
  assumes "counter_in_step w"
  shows "counter_in_step (snd (add_to_cache e q qv r w))"
proof -
  obtain ix w1 where ld: "load_faiss_cache w = (ix, w1)"
    by (cases "load_faiss_cache w")
  have w1: "counter_in_step w1"
    using in_step_load [of w] assms ld by simp
  let ?w2 = "w1\<lparr>entry_files := (entry_files w1)(cache_filepath e q \<mapsto> EntryData (result_to_save e q r))\<rparr>"
  have w2: "counter_in_step ?w2"
    using w1 in_step_cong [of ?w2 w1] by simp
  show ?thesis
  proof (cases "fst (add_to_cache e q qv r w)")
    case True
    then obtain v where "qv = Some v"
      using ld by (cases qv) (auto simp: add_to_cache_def Let_def split: if_splits)
    then show ?thesis
      using in_step_append(4) [OF assms ld, of e q v r "snd (add_to_cache e q qv r w)"] True
      by (cases "add_to_cache e q qv r w") simp
  next
    case False
    then have "snd (add_to_cache e q qv r w) = w1 \<or> snd (add_to_cache e q qv r w) = ?w2"
      using ld by (auto simp: add_to_cache_def Let_def split: if_splits option.splits sum.splits)
    then show ?thesis using w1 w2 by auto
  qed
qed

lemma in_step_handle_live:
  "counter_in_step w \<Longrightarrow> counter_in_step (snd (handle_live_result e q v r w))"
  by (simp add: handle_live_result_def case_prod_beta in_step_add)

lemma in_step_resolve:
  assumes "counter_in_step w"
  shows "counter_in_step (snd (get_search_results_with_cache e arg w))"
proof (cases "arg = QOther \<or> (\<exists>raw. arg = QStr raw \<and> strip raw = [])")
  case True
  then show ?thesis
    using assms resolve_non_string resolve_blank by (auto simp del: split_paired_Ex)
next
  case False
  then obtain raw where arg: "arg = QStr raw" and q: "strip raw \<noteq> []"
    by (cases arg) auto
  let ?w1 = "snd (get_embedding e (strip raw) w)"
  have w1: "counter_in_step ?w1"
    using assms in_step_cong [of ?w1 w] by (simp add: get_embedding_world)
  show ?thesis
  proof (cases "fst (get_embedding e (strip raw) w)")
    case None
    have "counter_in_step (?w1\<lparr>live_searches := live_searches ?w1 @ [strip raw]\<rparr>)"
      using w1 in_step_cong [of "?w1\<lparr>live_searches := live_searches ?w1 @ [strip raw]\<rparr>" ?w1]
      by simp
    then show ?thesis
      by (simp add: arg resolve_embedding_failed [OF q None])
  next
    case (Some v)
    then have ge: "get_embedding e (strip raw) w = (Some v, ?w1)"
      by (metis prod.collapse)
    let ?w2 = "snd (load_faiss_cache ?w1)"
    have w2: "counter_in_step ?w2"
      using w1 by (simp add: in_step_load)
    have w3: "counter_in_step (?w2\<lparr>live_searches := l\<rparr>)" for l
      using w2 in_step_cong [of "?w2\<lparr>live_searches := l\<rparr>" ?w2] by simp
    show ?thesis
      using w2 w3
      by (simp add: arg resolve_embedded [OF q ge] in_step_handle_live split: option.splits)
  qed
qed

text \<open>
  Claim C6, amended. After a load from disk the number of mapping records equals the
  number of vectors. A cache is in step when, after loading, the counter equals the
  number of vectors, the mapping has as many records, and every key of the mapping is
  below the counter. The empty cache that a load gives is in step, whether an index file
  or a mapping file is missing or unreadable, or the load has reset the cache because
  the sizes differ. Every call of \<open>get_search_results_with_cache\<close> keeps a cache in
  step. An append to a cache in step adds one vector and one record, the record under
  the vector count before the insertion, and leaves the number of records and the
  counter at the new vector count.
\<close>

theorem sizes_agree_in_step:
  "(faiss_index w = None \<longrightarrow>
      int (length (index_id_to_data (snd (load_faiss_cache w)))) =
        ntotal (fst (load_faiss_cache w))) \<and>
   (faiss_index w = None \<and>
    (index_file w = None \<or> mapping_file w = None \<or>
     index_file w = Some IndexCorrupt \<or> mapping_file w = Some MappingCorrupt \<or>
     (\<exists>ix0 n items. index_file w = Some (IndexData ix0) \<and>
        mapping_file w = Some (MappingData n items) \<and>
        ntotal ix0 \<noteq> int (length (dict_of_items items)))) \<longrightarrow>
      counter_in_step w) \<and>
   (counter_in_step w \<longrightarrow>
      counter_in_step (snd (get_search_results_with_cache e arg w))) \<and>
   (counter_in_step w \<and> load_faiss_cache w = (ix, w1) \<and>
    add_to_cache e q (Some v) r w = (True, w') \<longrightarrow>
      faiss_index w' = Some (ix\<lparr>rows := rows ix @ [v]\<rparr>) \<and>
      index_id_to_data w' = index_id_to_data w1 @ [(ntotal ix, q, cache_filepath e q)] \<and>
      int (length (index_id_to_data w')) = ntotal (ix\<lparr>rows := rows ix @ [v]\<rparr>) \<and>
      next_faiss_id w' = ntotal (ix\<lparr>rows := rows ix @ [v]\<rparr>) \<and>
      counter_in_step w')"
proof (intro conjI impI)
  show "int (length (index_id_to_data (snd (load_faiss_cache w)))) =
        ntotal (fst (load_faiss_cache w))" if "faiss_index w = None"
    using that by (rule load_sizes_agree)
  show "counter_in_step w"
    if "faiss_index w = None \<and>
    (index_file w = None \<or> mapping_file w = None \<or>
     index_file w = Some IndexCorrupt \<or> mapping_file w = Some MappingCorrupt \<or>
     (\<exists>ix0 n items. index_file w = Some (IndexData ix0) \<and>
        mapping_file w = Some (MappingData n items) \<and>
        ntotal ix0 \<noteq> int (length (dict_of_items items))))"
    using that in_step_reset [of w] by blast
  show "counter_in_step (snd (get_search_results_with_cache e arg w))" if "counter_in_step w"
    using that by (rule in_step_resolve)
next
  assume h: "counter_in_step w \<and> load_faiss_cache w = (ix, w1) \<and>
    add_to_cache e q (Some v) r w = (True, w')"
  then have a: "counter_in_step w" and b: "load_faiss_cache w = (ix, w1)"
    and c: "add_to_cache e q (Some v) r w = (True, w')"
    by simp_all
  note ap = in_step_append [OF a b c]
  have len: "int (length (index_id_to_data w1)) = ntotal ix"
    using a b by (simp add: counter_in_step_def)
  show "faiss_index w' = Some (ix\<lparr>rows := rows ix @ [v]\<rparr>)" by (rule ap(1))
  show "index_id_to_data w' = index_id_to_data w1 @ [(ntotal ix, q, cache_filepath e q)]"
    by (rule ap(2))
  show "int (length (index_id_to_data w')) = ntotal (ix\<lparr>rows := rows ix @ [v]\<rparr>)"
    using len by (simp add: ap(2) ntotal_def)
  show "next_faiss_id w' = ntotal (ix\<lparr>rows := rows ix @ [v]\<rparr>)"
    by (simp add: ap(3) ntotal_def)
  show "counter_in_step w'" by (rule ap(4))
qed

theorem sizes_agree_in_step_witness:
  "counter_in_step cold_world \<and> counter_in_step torn_world \<and>
   counter_in_step (snd (get_search_results_with_cache probe_env (QStr (py ''ipl final score'')) cold_world)) \<and>
   index_id_to_data (snd (add_to_cache probe_env (py ''ipl final score'') (Some e1) scraped cold_world)) =
     [(0, py ''ipl final score'', cache_filepath probe_env (py ''ipl final score''))] \<and>
   faiss_index (snd (add_to_cache probe_env (py ''ipl final score'') (Some e1) scraped cold_world)) =
     Some \<lparr>dim = 768, rows = [e1]\<rparr>"
proof -
  have h1: "faiss_index cold_world = None \<and>
     (index_file cold_world = None \<or> mapping_file cold_world = None \<or>
      index_file cold_world = Some IndexCorrupt \<or> mapping_file cold_world = Some MappingCorrupt \<or>
      (\<exists>ix0 n items. index_file cold_world = Some (IndexData ix0) \<and>
         mapping_file cold_world = Some (MappingData n items) \<and>
         ntotal ix0 \<noteq> int (length (dict_of_items items))))"
    by (simp add: cold_world_def)
  have h2: "faiss_index torn_world = None \<and>
     (index_file torn_world = None \<or> mapping_file torn_world = None \<or>
      index_file torn_world = Some IndexCorrupt \<or> mapping_file torn_world = Some MappingCorrupt \<or>
      (\<exists>ix0 n items. index_file torn_world = Some (IndexData ix0) \<and>
         mapping_file torn_world = Some (MappingData n items) \<and>
         ntotal ix0 \<noteq> int (length (dict_of_items items))))"
    by (simp add: torn_world_def cold_world_def ntotal_def dict_of_items_def)
  have ld: "load_faiss_cache cold_world =
     (\<lparr>dim = 768, rows = []\<rparr>, cold_world\<lparr>faiss_index := Some \<lparr>dim = 768, rows = []\<rparr>\<rparr>)"
    by (simp add: cold_world_def load_faiss_cache_def fresh_cache_def IndexFlatIP_def
        EMBEDDING_DIM_def)
  have len: "length e1 = dim \<lparr>dim = 768, rows = []\<rparr>"
    by (simp add: e1_facts)
  have ad: "add_to_cache probe_env (py ''ipl final score'') (Some e1) scraped cold_world =
     (True, snd (add_to_cache probe_env (py ''ipl final score'') (Some e1) scraped cold_world))"
    by (simp add: add_to_cache_appends [OF ld probe_live(3) len])
  note c = sizes_agree_in_step [of cold_world probe_env "QStr (py ''ipl final score'')"
      "\<lparr>dim = 768, rows = []\<rparr>" "cold_world\<lparr>faiss_index := Some \<lparr>dim = 768, rows = []\<rparr>\<rparr>"
      "(py ''ipl final score'')" e1 scraped
      "snd (add_to_cache probe_env (py ''ipl final score'') (Some e1) scraped cold_world)"]
  note d = sizes_agree_in_step [of torn_world]
  have s: "counter_in_step cold_world"
    using c h1 by blast
  have s': "counter_in_step torn_world"
    using d h2 by blast
  have t: "counter_in_step (snd (get_search_results_with_cache probe_env (QStr (py ''ipl final score'')) cold_world))"
    using c s by blast
  have u: "index_id_to_data (snd (add_to_cache probe_env (py ''ipl final score'') (Some e1) scraped cold_world)) =
     index_id_to_data (cold_world\<lparr>faiss_index := Some \<lparr>dim = 768, rows = []\<rparr>\<rparr>) @
       [(ntotal \<lparr>dim = 768, rows = []\<rparr>, py ''ipl final score'', cache_filepath probe_env (py ''ipl final score''))]"
    and v: "faiss_index (snd (add_to_cache probe_env (py ''ipl final score'') (Some e1) scraped cold_world)) =
     Some (\<lparr>dim = 768, rows = []\<rparr>\<lparr>rows := rows \<lparr>dim = 768, rows = []\<rparr> @ [e1]\<rparr>)"
    using c s ld ad by blast+
  show ?thesis
    using s s' t u v by (simp add: cold_world_def ntotal_def)
qed

subsection \<open>A miss, then a hit\<close>

lemma load_embed_calls:
  "load_faiss_cache (w\<lparr>embed_calls := c\<rparr>) =
     (fst (load_faiss_cache w), (snd (load_faiss_cache w))\<lparr>embed_calls := c\<rparr>)"
  by (simp add: load_faiss_cache_def fresh_cache_def
      split: option.splits sum.splits prod.splits)

lemma clean_cached_status:
  "map_of (clean_cached e s d) (py ''_cache_status'') = Some (JStr (hit_status e s))"
  by (simp add: clean_cached_def update_conv')

lemma clean_cached_saved:
  assumes "k \<noteq> (py ''_cache_status'')" "k \<noteq> (py ''_cached_original_query'')" "k \<noteq> (py ''_cache_timestamp'')"
  shows "map_of (clean_cached e s (result_to_save e0 q r)) k = map_of r k"
  using assms
  by (simp add: clean_cached_def result_to_save_def update_conv' delete_conv')

lemma miss_then_hit_run:
  assumes q: "strip raw \<noteq> []"
    and emb: "client_ready e" "embed_content e (strip raw) = Some v"
    and emb': "client_ready e'" "embed_content e' (strip raw) = Some v"
    and unit: "norm_L2sqr v = 1"
    and empty: "load_faiss_cache w = (ix, w1)" "rows ix = []" "index_id_to_data w1 = []"
      "next_faiss_id w1 = 0"
    and len: "length v = dim ix"
    and live: "(py ''error'') \<notin> fst ` set (perform_web_search e (strip raw))"
      "perform_web_search e (strip raw) \<noteq> []" "\<not> entry_write_fails e"
    and first: "get_search_results_with_cache e (QStr raw) w = (p, w')"
  shows "p = AList.update (py ''_cache_status'') (JStr (py ''Live Search (Cache Miss)''))
             (perform_web_search e (strip raw))"
    and "live_searches w' = live_searches w @ [strip raw]"
    and "entry_files w' (cache_filepath e (strip raw)) =
           Some (EntryData (result_to_save e (strip raw) (perform_web_search e (strip raw))))"
    and "faiss_index w' = Some (ix\<lparr>rows := [v]\<rparr>)"
    and "index_id_to_data w' = [(0, strip raw, cache_filepath e (strip raw))]"
    and "get_search_results_with_cache e' (QStr raw) w' =
           (clean_cached e' 1 (result_to_save e (strip raw) (perform_web_search e (strip raw))),
            w'\<lparr>embed_calls := embed_calls w' @ [strip raw]\<rparr>)"
proof -
  let ?q = "strip raw"
  let ?live = "perform_web_search e ?q"
  let ?we = "w\<lparr>embed_calls := embed_calls w @ [?q]\<rparr>"
  have ge: "get_embedding e ?q w = (Some v, ?we)"
    using emb by (simp add: get_embedding_stripped [OF q])
  have ld: "load_faiss_cache ?we = (ix, w1\<lparr>embed_calls := embed_calls w @ [?q]\<rparr>)"
    using empty(1) by (simp add: load_embed_calls)
  have nt: "ntotal ix = 0"
    using empty(2) by (simp add: ntotal_def)
  have miss: "fst (fst (get_from_cache e ?q v ?we)) = None"
    using ld nt by (simp add: get_from_cache_def)
  note r = resolve_miss_cached [OF q ge ld miss live len]
  have w': "w' = save_faiss_cache e
       (w1\<lparr>embed_calls := embed_calls w @ [?q],
          live_searches := live_searches w @ [?q],
          entry_files := (entry_files w1)(cache_filepath e ?q \<mapsto> EntryData (result_to_save e ?q ?live)),
          faiss_index := Some (ix\<lparr>rows := [v]\<rparr>),
          index_id_to_data := [(0, ?q, cache_filepath e ?q)],
          next_faiss_id := 1\<rparr>)"
    using r first nt empty by simp
  show "p = AList.update (py ''_cache_status'') (JStr (py ''Live Search (Cache Miss)'')) ?live"
    using r first by simp
  show "live_searches w' = live_searches w @ [?q]"
    by (simp add: w' save_keeps_logs)
  show ef: "entry_files w' (cache_filepath e ?q) = Some (EntryData (result_to_save e ?q ?live))"
    by (simp add: w' save_keeps_logs)
  show fi: "faiss_index w' = Some (ix\<lparr>rows := [v]\<rparr>)"
    by (simp add: w' save_keeps_logs)
  show m: "index_id_to_data w' = [(0, ?q, cache_filepath e ?q)]"
    by (simp add: w' save_keeps_logs)
  let ?w2 = "w'\<lparr>embed_calls := embed_calls w' @ [?q]\<rparr>"
  have ge': "get_embedding e' ?q w' = (Some v, ?w2)"
    using emb' by (simp add: get_embedding_stripped [OF q])
  have "faiss_index ?w2 = Some (ix\<lparr>rows := [v]\<rparr>)"
    using fi by simp
  then have ld': "load_faiss_cache ?w2 = (ix\<lparr>rows := [v]\<rparr>, ?w2)"
    by (rule load_loaded)
  have nz: "ntotal (ix\<lparr>rows := [v]\<rparr>) \<noteq> 0"
    by (simp add: ntotal_def)
  have se: "index_search (ix\<lparr>rows := [v]\<rparr>) (normalize_L2 v) = Inr (0, 1)"
    using len unit by (simp add: index_search_def normalize_L2_of_unit inner_product_self)
  have "fst (get_from_cache e' ?q v ?w2) =
      (Some (clean_cached e' 1 (result_to_save e ?q ?live)), 1)"
    using get_from_cache_scored [OF ld' nz se, of e' ?q] m ef
    by (simp add: CACHE_SIMILARITY_THRESHOLD_def)
  then show "get_search_results_with_cache e' (QStr raw) w' =
           (clean_cached e' 1 (result_to_save e ?q ?live), ?w2)"
    using resolve_embedded [OF q ge'] ld' by simp
qed

text \<open>
  Claim C3, amended. Start from an empty cache (after loading: no row, no record, counter
  0) and take a query whose embedding is the same vector for both calls, of unit norm
  and of the dimension of the index, with a live search that succeeds and an entry file
  that can be written. The first call performs exactly one live search, returns its
  result under \<open>Live Search (Cache Miss)\<close> and stores it in the entry file of the query.
  The second call with the same text performs no live search and returns the stored
  payload: every key but the three bookkeeping keys has the value the live search gave,
  and \<open>_cache_status\<close> is \<open>HIT (Similarity: ...)\<close>, in capitals.
\<close>

theorem miss_then_hit:
  assumes "strip raw \<noteq> []"
    and "client_ready e" and "embed_content e (strip raw) = Some v"
    and "client_ready e'" and "embed_content e' (strip raw) = Some v"
    and "norm_L2sqr v = 1"
    and "load_faiss_cache w = (ix, w1)" and "rows ix = []" and "index_id_to_data w1 = []"
    and "next_faiss_id w1 = 0"
    and "length v = dim ix"
    and "(py ''error'') \<notin> fst ` set (perform_web_search e (strip raw))"
    and "perform_web_search e (strip raw) \<noteq> []" and "\<not> entry_write_fails e"
    and "get_search_results_with_cache e (QStr raw) w = (p, w')"
    and "get_search_results_with_cache e' (QStr raw) w' = (p', w'')"
  shows "p = AList.update (py ''_cache_status'') (JStr (py ''Live Search (Cache Miss)''))
             (perform_web_search e (strip raw)) \<and>
    live_searches w' = live_searches w @ [strip raw] \<and>
    entry_files w' (cache_filepath e (strip raw)) =
      Some (EntryData (result_to_save e (strip raw) (perform_web_search e (strip raw)))) \<and>
    live_searches w'' = live_searches w' \<and>
    map_of p' (py ''_cache_status'') = Some (JStr ((py ''HIT (Similarity: '') @ format_4f e' 1 @ (py '')''))) \<and>
    (k \<noteq> (py ''_cache_status'') \<and> k \<noteq> (py ''_cached_original_query'') \<and> k \<noteq> (py ''_cache_timestamp'') \<longrightarrow>
       map_of p' k = map_of (perform_web_search e (strip raw)) k)"
proof -
  note run = miss_then_hit_run [OF assms(1-15)]
  have p': "p' = clean_cached e' 1 (result_to_save e (strip raw) (perform_web_search e (strip raw)))"
    and w'': "w'' = w'\<lparr>embed_calls := embed_calls w' @ [strip raw]\<rparr>"
    using run(6) assms(16) by simp_all
  show ?thesis
    using run(1-3)
    by (simp add: p' w'' clean_cached_status clean_cached_saved hit_status_def)
qed

lemma cold_ipl_facts:
  "strip (py ''ipl final score'') \<noteq> []"
  "client_ready probe_env"
  "embed_content probe_env (strip (py ''ipl final score'')) = Some e1"
  "load_faiss_cache cold_world =
     (\<lparr>dim = 768, rows = []\<rparr>, cold_world\<lparr>faiss_index := Some \<lparr>dim = 768, rows = []\<rparr>\<rparr>)"
  "rows \<lparr>dim = 768, rows = []\<rparr> = []"
  "index_id_to_data (cold_world\<lparr>faiss_index := Some \<lparr>dim = 768, rows = []\<rparr>\<rparr>) = []"
  "next_faiss_id (cold_world\<lparr>faiss_index := Some \<lparr>dim = 768, rows = []\<rparr>\<rparr>) = 0"
  "length e1 = dim \<lparr>dim = 768, rows = []\<rparr>"
  by (simp_all add: strip_def is_space_def py_def probe_env_def cold_world_def load_faiss_cache_def
      fresh_cache_def IndexFlatIP_def EMBEDDING_DIM_def e1_facts)

text \<open>
  Claim C3, a counterexample. After a miss that cached its result, the second call with
  the same text hits, and its status is \<open>HIT (Similarity: 1.0000)\<close>: it does not start
  with \<open>hit\<close>.
\<close>

theorem hit_status_is_upper_case:
  "map_of (fst (get_search_results_with_cache probe_env (QStr (py ''ipl final score''))
      (snd (get_search_results_with_cache probe_env (QStr (py ''ipl final score'')) cold_world))))
     (py ''_cache_status'') = Some (JStr (py ''HIT (Similarity: 1.0000)'')) \<and>
   take 3 (py ''HIT (Similarity: 1.0000)'') \<noteq> (py ''hit'')"
proof -
  have first: "get_search_results_with_cache probe_env (QStr (py ''ipl final score'')) cold_world =
    (fst (get_search_results_with_cache probe_env (QStr (py ''ipl final score'')) cold_world),
     snd (get_search_results_with_cache probe_env (QStr (py ''ipl final score'')) cold_world))"
    by simp
  note run = miss_then_hit_run [OF cold_ipl_facts(1-3) cold_ipl_facts(2,3) e1_facts(2)
      cold_ipl_facts(4-8) probe_live(1-3) first]
  show ?thesis
    by (simp add: run(6) clean_cached_status hit_status_def) (simp add: probe_env_def py_def)
qed

theorem miss_then_hit_witness:
  "fst (get_search_results_with_cache probe_env (QStr (py ''ipl final score'')) cold_world) =
     AList.update (py ''_cache_status'') (JStr (py ''Live Search (Cache Miss)'')) scraped \<and>
   live_searches (snd (get_search_results_with_cache probe_env (QStr (py ''ipl final score'')) cold_world))
     = [py ''ipl final score''] \<and>
   live_searches (snd (get_search_results_with_cache probe_env (QStr (py ''ipl final score''))
      (snd (get_search_results_with_cache probe_env (QStr (py ''ipl final score'')) cold_world))))
     = [py ''ipl final score''] \<and>
   map_of (fst (get_search_results_with_cache probe_env (QStr (py ''ipl final score''))
      (snd (get_search_results_with_cache probe_env (QStr (py ''ipl final score'')) cold_world))))
     (py ''Bing Search Results Page'') = Some (JStr (py ''India won by 6 wickets''))"
proof -
  let ?r1 = "get_search_results_with_cache probe_env (QStr (py ''ipl final score'')) cold_world"
  let ?r2 = "get_search_results_with_cache probe_env (QStr (py ''ipl final score'')) (snd ?r1)"
  have first: "?r1 = (fst ?r1, snd ?r1)" and second: "?r2 = (fst ?r2, snd ?r2)"
    by simp_all
  note c = miss_then_hit [OF cold_ipl_facts(1-3) cold_ipl_facts(2,3) e1_facts(2)
      cold_ipl_facts(4-8) probe_live(1-3) first second, of "(py ''Bing Search Results Page'')"]
  have l: "live_searches cold_world = []"
    by (simp add: cold_world_def)
  have s: "strip (py ''ipl final score'') = (py ''ipl final score'')"
    by (simp add: strip_def is_space_def py_def)
  show ?thesis
    using c by (simp add: probe_live(4) l s) (simp add: scraped_def)
qed

end
